theory Spec2Isabelle
  imports Complex_Main
begin

section \<open>Values and errors\<close>

text \<open>
  The program is NumPy code over float arrays.  A float is modelled by \<open>fl\<close>: a finite
  value (an exact real: rounding, overflow to infinity and the sign of zero are not
  modelled), the two infinities, or NaN.  The special values follow IEEE 754 as NumPy
  exposes it: NaN is absorbing, comparisons with NaN are false, \<open>x / 0\<close> is an infinity
  or NaN, \<open>log 0\<close> is minus infinity and the log of a negative number is NaN.
\<close>

datatype fl = Fin real | PInf | NInf | NaN

fun is_nan :: "fl \<Rightarrow> bool" where
  "is_nan NaN = True"
| "is_nan _ = False"

instantiation fl :: "{plus, uminus, times, inverse, ord, abs}"
begin

fun uminus_fl :: "fl \<Rightarrow> fl" where
  "uminus_fl (Fin a) = Fin (- a)"
| "uminus_fl PInf = NInf"
| "uminus_fl NInf = PInf"
| "uminus_fl NaN = NaN"

fun plus_fl :: "fl \<Rightarrow> fl \<Rightarrow> fl" where
  "plus_fl (Fin a) (Fin b) = Fin (a + b)"
| "plus_fl NaN _ = NaN"
| "plus_fl _ NaN = NaN"
| "plus_fl PInf NInf = NaN"
| "plus_fl NInf PInf = NaN"
| "plus_fl PInf _ = PInf"
| "plus_fl _ PInf = PInf"
| "plus_fl NInf _ = NInf"
| "plus_fl _ NInf = NInf"

fun times_fl :: "fl \<Rightarrow> fl \<Rightarrow> fl" where
  "times_fl (Fin a) (Fin b) = Fin (a * b)"
| "times_fl NaN _ = NaN"
| "times_fl _ NaN = NaN"
| "times_fl (Fin a) PInf = (if a = 0 then NaN else if 0 < a then PInf else NInf)"
| "times_fl (Fin a) NInf = (if a = 0 then NaN else if 0 < a then NInf else PInf)"
| "times_fl PInf (Fin b) = (if b = 0 then NaN else if 0 < b then PInf else NInf)"
| "times_fl NInf (Fin b) = (if b = 0 then NaN else if 0 < b then NInf else PInf)"
| "times_fl PInf PInf = PInf"
| "times_fl NInf NInf = PInf"
| "times_fl PInf NInf = NInf"
| "times_fl NInf PInf = NInf"

fun divide_fl :: "fl \<Rightarrow> fl \<Rightarrow> fl" where
  "divide_fl (Fin a) (Fin b) =
     (if b \<noteq> 0 then Fin (a / b)
      else if a = 0 then NaN else if 0 < a then PInf else NInf)"
| "divide_fl NaN _ = NaN"
| "divide_fl _ NaN = NaN"
| "divide_fl (Fin a) PInf = Fin 0"
| "divide_fl (Fin a) NInf = Fin 0"
| "divide_fl PInf (Fin b) = (if 0 \<le> b then PInf else NInf)"
| "divide_fl NInf (Fin b) = (if 0 \<le> b then NInf else PInf)"
| "divide_fl PInf _ = NaN"
| "divide_fl NInf _ = NaN"

fun inverse_fl :: "fl \<Rightarrow> fl" where
  "inverse_fl (Fin a) = (if a \<noteq> 0 then Fin (1 / a) else PInf)"
| "inverse_fl PInf = Fin 0"
| "inverse_fl NInf = Fin 0"
| "inverse_fl NaN = NaN"

fun less_fl :: "fl \<Rightarrow> fl \<Rightarrow> bool" where
  "less_fl (Fin a) (Fin b) = (a < b)"
| "less_fl NaN _ = False"
| "less_fl _ NaN = False"
| "less_fl _ NInf = False"
| "less_fl PInf _ = False"
| "less_fl NInf _ = True"
| "less_fl _ PInf = True"

fun less_eq_fl :: "fl \<Rightarrow> fl \<Rightarrow> bool" where
  "less_eq_fl (Fin a) (Fin b) = (a \<le> b)"
| "less_eq_fl NaN _ = False"
| "less_eq_fl _ NaN = False"
| "less_eq_fl NInf _ = True"
| "less_eq_fl _ PInf = True"
| "less_eq_fl _ NInf = False"
| "less_eq_fl PInf _ = False"

fun abs_fl :: "fl \<Rightarrow> fl" where
  "abs_fl (Fin a) = Fin \<bar>a\<bar>"
| "abs_fl PInf = PInf"
| "abs_fl NInf = PInf"
| "abs_fl NaN = NaN"

instance ..

end

instantiation fl :: minus
begin

definition minus_fl :: "fl \<Rightarrow> fl \<Rightarrow> fl" where
  "minus_fl x y = x + (- y)"

instance ..

end

text \<open>\<open>==\<close> on floats: false as soon as one side is NaN.\<close>

definition feq :: "fl \<Rightarrow> fl \<Rightarrow> bool" where
  "feq x y = (\<not> is_nan x \<and> \<not> is_nan y \<and> x = y)"

text \<open>\<open>numpy.log\<close>.\<close>

fun flog :: "fl \<Rightarrow> fl" where
  "flog (Fin a) = (if 0 < a then Fin (ln a) else if a = 0 then NInf else NaN)"
| "flog PInf = PInf"
| "flog NInf = NaN"
| "flog NaN = NaN"

text \<open>The exceptions the code and the library calls it makes can raise.\<close>

datatype error =
    ValueError string
  | IndexError
  | TypeError
  | NotImplementedError string
  | UnboundLocalError
  | OverflowError
  | ZeroDivisionError

type_synonym 'a matrix = "'a list list"
type_synonym 'a batch = "'a list list list"

section \<open>Array helpers\<close>

text \<open>
  A 2-D array is a list of rows and a batch is a list of 2-D arrays; NumPy arrays are
  rectangular, which the theorems assume where they need it (\<open>rect\<close>).  The shape of a
  batch is read from its first window.
\<close>

definition ncols :: "'a matrix \<Rightarrow> nat" where
  "ncols m = (case m of [] \<Rightarrow> 0 | r # _ \<Rightarrow> length r)"

definition shape1 :: "'a batch \<Rightarrow> nat" where
  "shape1 corr = (case corr of [] \<Rightarrow> 0 | w # _ \<Rightarrow> length w)"

definition shape2 :: "'a batch \<Rightarrow> nat" where
  "shape2 corr = (case corr of [] \<Rightarrow> 0 | w # _ \<Rightarrow> ncols w)"

definition rect :: "nat \<Rightarrow> nat \<Rightarrow> 'a matrix \<Rightarrow> bool" where
  "rect R C m = (length m = R \<and> list_all (\<lambda>r. length r = C) m)"

text \<open>
  Indexing with one integer: a negative index counts from the end, an index out of range
  raises IndexError.
\<close>

definition py_index :: "'a list \<Rightarrow> int \<Rightarrow> error + 'a" where
  "py_index xs i =
     (if 0 \<le> i \<and> i < int (length xs) then Inr (xs ! nat i)
      else if i < 0 \<and> - int (length xs) \<le> i then Inr (xs ! nat (int (length xs) + i))
      else Inl IndexError)"

definition index2 :: "'a matrix \<Rightarrow> int \<Rightarrow> int \<Rightarrow> error + 'a" where
  "index2 m i j = (case py_index m i of Inl e \<Rightarrow> Inl e | Inr row \<Rightarrow> py_index row j)"

text \<open>The first error of a list of results, or all the values.\<close>

fun collect :: "(error + 'a) list \<Rightarrow> error + 'a list" where
  "collect [] = Inr []"
| "collect (r # rs) =
     (case r of Inl e \<Rightarrow> Inl e
      | Inr x \<Rightarrow> (case collect rs of Inl e \<Rightarrow> Inl e | Inr xs \<Rightarrow> Inr (x # xs)))"

text \<open>
  \<open>numpy.argmax\<close> on a flat array: the index of the first maximum, and the index of the
  first NaN when there is one (the scan replaces its candidate when
  \<open>not (x <= candidate)\<close> and stops at a NaN).  An empty array raises ValueError.
\<close>

fun argmax_from :: "fl \<Rightarrow> nat \<Rightarrow> nat \<Rightarrow> fl list \<Rightarrow> nat" where
  "argmax_from mp mi i [] = mi"
| "argmax_from mp mi i (x # xs) =
     (if is_nan mp then mi
      else if \<not> x \<le> mp then argmax_from x i (Suc i) xs
      else argmax_from mp mi (Suc i) xs)"

definition np_argmax :: "fl list \<Rightarrow> error + nat" where
  "np_argmax xs =
     (case xs of [] \<Rightarrow> Inl (ValueError ''attempt to get argmax of an empty sequence'')
      | x # ys \<Rightarrow> Inr (argmax_from x 0 1 ys))"

text \<open>\<open>max\<close> of an array propagates NaN; \<open>nanmax\<close> ignores it.\<close>

definition np_maximum :: "fl \<Rightarrow> fl \<Rightarrow> fl" where
  "np_maximum a b = (if is_nan a then a else if is_nan b then b else if a < b then b else a)"

definition np_fmax :: "fl \<Rightarrow> fl \<Rightarrow> fl" where
  "np_fmax a b = (if is_nan a then b else if is_nan b then a else if a < b then b else a)"

definition np_max :: "fl list \<Rightarrow> error + fl" where
  "np_max xs =
     (case xs of [] \<Rightarrow> Inl (ValueError ''zero-size array to reduction operation maximum'')
      | x # ys \<Rightarrow> Inr (foldl np_maximum x ys))"

definition np_nanmax :: "fl list \<Rightarrow> error + fl" where
  "np_nanmax xs =
     (case xs of [] \<Rightarrow> Inl (ValueError ''zero-size array to reduction operation fmax'')
      | x # ys \<Rightarrow> Inr (foldl np_fmax x ys))"

definition unravel_index :: "nat \<Rightarrow> nat \<Rightarrow> nat \<times> nat" where
  "unravel_index k C = (k div C, k mod C)"

text \<open>\<open>numpy.where(cond)[0]\<close>: the indices where the condition holds, in order.\<close>

definition np_where :: "('a \<Rightarrow> bool) \<Rightarrow> 'a list \<Rightarrow> nat list" where
  "np_where P xs = filter (\<lambda>k. P (xs ! k)) [0..<length xs]"

text \<open>\<open>a[idx] = v\<close> for a list of indices and one value.\<close>

definition assign_at :: "'a list \<Rightarrow> nat list \<Rightarrow> 'a \<Rightarrow> 'a list" where
  "assign_at xs idx v = foldl (\<lambda>ys k. ys[k := v]) xs idx"

text \<open>\<open>mean\<close> over a flat array (sum over count), and \<open>nanmean\<close>, which skips NaN.\<close>

definition np_mean :: "fl list \<Rightarrow> fl" where
  "np_mean xs = foldl (+) (Fin 0) xs / Fin (real (length xs))"

definition np_nanmean :: "fl list \<Rightarrow> fl" where
  "np_nanmean xs = np_mean (filter (\<lambda>x. \<not> is_nan x) xs)"

section \<open>Peak finder\<close>

text \<open>
  \<open>find_first_peak\<close> on one correlation map:
  \<open>np.unravel_index(np.argmax(corr), corr.shape), corr.max()\<close>.  It only reads.
\<close>

definition find_first_peak :: "fl matrix \<Rightarrow> error + ((nat \<times> nat) \<times> fl)" where
  "find_first_peak corr =
     (case np_argmax (concat corr) of Inl e \<Rightarrow> Inl e
      | Inr k \<Rightarrow>
         (case np_max (concat corr) of Inl e \<Rightarrow> Inl e
          | Inr m \<Rightarrow> Inr (unravel_index k (ncols corr), m)))"

text \<open>
  A masked view (\<open>corr.view(ma.MaskedArray)\<close>) shares the data of the array it views and
  has a mask of its own, all false at first.  Assigning \<open>ma.masked\<close> to a region sets
  the mask there and leaves the data alone.  \<open>argmax\<close> and \<open>max\<close> of a masked array work
  on the data with the masked entries replaced by minus infinity; the maximum of a fully
  masked array is the constant \<open>masked\<close> (\<open>None\<close> here).
\<close>

type_synonym masked = "fl matrix \<times> bool matrix"

definition view_masked :: "fl matrix \<Rightarrow> masked" where
  "view_masked corr = (corr, map (map (\<lambda>_. False)) corr)"

definition mask_region :: "masked \<Rightarrow> nat \<Rightarrow> nat \<Rightarrow> nat \<Rightarrow> nat \<Rightarrow> masked" where
  "mask_region tmp iini ifin jini jfin =
     (fst tmp,
      map (\<lambda>(r, row). map (\<lambda>(c, b). b \<or> (iini \<le> r \<and> r < ifin \<and> jini \<le> c \<and> c < jfin))
                         (enumerate 0 row))
          (enumerate 0 (snd tmp)))"

definition ma_filled :: "masked \<Rightarrow> fl matrix" where
  "ma_filled tmp = map (\<lambda>(row, mrow). map (\<lambda>(x, b). if b then NInf else x) (zip row mrow))
                       (zip (fst tmp) (snd tmp))"

definition all_masked :: "masked \<Rightarrow> bool" where
  "all_masked tmp = list_all (\<lambda>b. b) (concat (snd tmp))"

definition find_first_peak_masked :: "masked \<Rightarrow> error + ((nat \<times> nat) \<times> fl option)" where
  "find_first_peak_masked tmp =
     (case np_argmax (concat (ma_filled tmp)) of Inl e \<Rightarrow> Inl e
      | Inr k \<Rightarrow>
         (case np_max (concat (ma_filled tmp)) of Inl e \<Rightarrow> Inl e
          | Inr m \<Rightarrow> Inr (unravel_index k (ncols (fst tmp)),
                          if all_masked tmp then None else Some m)))"

text \<open>
  \<open>find_second_peak(corr, i, j, width)\<close>.  The result is paired with the data of the
  caller's array after the call (the masked view aliases it).
\<close>

definition find_second_peak ::
  "fl matrix \<Rightarrow> nat option \<Rightarrow> nat option \<Rightarrow> nat
     \<Rightarrow> fl matrix \<times> (error + ((nat \<times> nat) \<times> fl option))" where
  "find_second_peak corr i j width =
     (case (case (i, j) of
              (Some i', Some j') \<Rightarrow> Inr (i', j')
            | _ \<Rightarrow> (case find_first_peak corr of Inl e \<Rightarrow> Inl e | Inr (p, _) \<Rightarrow> Inr p)) of
        Inl e \<Rightarrow> (corr, Inl e)
      | Inr (i', j') \<Rightarrow>
          (let tmp = view_masked corr;
               iini = i' - width;
               ifin = min (i' + width + 1) (length corr);
               jini = j' - width;
               jfin = min (j' + width + 1) (ncols corr);
               tmp' = mask_region tmp iini ifin jini jfin
           in (fst tmp', find_first_peak_masked tmp')))"

text \<open>
  \<open>find_all_first_peaks\<close> on a batch: \<open>corr.reshape(N, -1).argmax(-1)\<close>, unravelled over
  the window shape, with the window index in front, and \<open>nanmax\<close> over each window.  The
  reshape raises for an empty batch, the argmax for empty windows.
\<close>

definition find_all_first_peaks ::
  "fl batch \<Rightarrow> error + ((nat \<times> nat \<times> nat) list \<times> fl list)" where
  "find_all_first_peaks corr =
     (if corr = [] then Inl (ValueError ''cannot reshape array of size 0'')
      else
        (case collect (map (\<lambda>w. np_argmax (concat w)) corr) of Inl e \<Rightarrow> Inl e
         | Inr ind \<Rightarrow>
            (case collect (map (\<lambda>w. np_nanmax (concat w)) corr) of Inl e \<Rightarrow> Inl e
             | Inr peaks_max \<Rightarrow>
                Inr (map (\<lambda>(k, a). (k, fst (unravel_index a (shape2 corr)),
                                        snd (unravel_index a (shape2 corr))))
                         (enumerate 0 ind),
                     peaks_max))))"

text \<open>
  The same on a masked batch.  \<open>nanmax\<close> replaces NaN by minus infinity and takes the
  masked maximum: \<open>None\<close> for a fully masked window.
\<close>

definition nan_to_ninf :: "fl \<Rightarrow> fl" where
  "nan_to_ninf x = (if is_nan x then NInf else x)"

definition find_all_first_peaks_masked ::
  "masked list \<Rightarrow> error + ((nat \<times> nat \<times> nat) list \<times> fl option list)" where
  "find_all_first_peaks_masked tmp =
     (if tmp = [] then Inl (ValueError ''cannot reshape array of size 0'')
      else
        (case collect (map (\<lambda>w. np_argmax (concat (ma_filled w))) tmp) of Inl e \<Rightarrow> Inl e
         | Inr ind \<Rightarrow>
            (case collect (map (\<lambda>w. np_max (map nan_to_ninf (concat (ma_filled w)))) tmp) of
               Inl e \<Rightarrow> Inl e
             | Inr mx \<Rightarrow>
                Inr (map (\<lambda>(k, a). (k, fst (unravel_index a (shape2 (map fst tmp))),
                                        snd (unravel_index a (shape2 (map fst tmp)))))
                         (enumerate 0 ind),
                     map (\<lambda>(w, m). if all_masked w then None else Some m) (zip tmp mx)))))"

text \<open>
  \<open>find_all_second_peaks(corr, width)\<close>: the square of half-width \<open>width\<close> around each
  window's first peak, clamped to the map, is masked in a masked view of the batch, and
  the first peaks of the view are returned.  The loop \<open>for i in ind\<close> masks one window
  per iteration.
\<close>

definition find_all_second_peaks ::
  "fl batch \<Rightarrow> nat \<Rightarrow> fl batch \<times> (error + ((nat \<times> nat \<times> nat) list \<times> fl option list))" where
  "find_all_second_peaks corr width =
     (case find_all_first_peaks corr of Inl e \<Rightarrow> (corr, Inl e)
      | Inr (indexes, _) \<Rightarrow>
          (let tmp = map view_masked corr;
               tmp' = foldl (\<lambda>t (i, x, y).
                        t[i := mask_region (t ! i)
                                 (x - width) (min (x + width + 1) (shape1 corr))
                                 (y - width) (min (y + width + 1) (shape2 corr))])
                      tmp indexes
           in (map fst tmp', find_all_first_peaks_masked tmp')))"

section \<open>Sub-pixel estimator\<close>

definition eps_default :: fl where
  "eps_default = Fin (1 / 10 ^ 7)"

text \<open>\<open>corr += eps\<close>: in place, on every element of the caller's array.\<close>

definition add_eps :: "fl \<Rightarrow> fl matrix \<Rightarrow> fl matrix" where
  "add_eps e corr = map (map (\<lambda>x. x + e)) corr"

definition on_border :: "nat \<Rightarrow> nat \<Rightarrow> nat \<Rightarrow> nat \<Rightarrow> bool" where
  "on_border i j R C = (i = 0 \<or> int i = int R - 1 \<or> j = 0 \<or> int j = int C - 1)"

definition known_subpixel_method :: "string \<Rightarrow> bool" where
  "known_subpixel_method m = (m = ''gaussian'' \<or> m = ''centroid'' \<or> m = ''parabolic'')"

text \<open>The three fits on the five samples of the stencil, as the source writes them.\<close>

definition centroid_fit :: "int \<Rightarrow> fl \<Rightarrow> fl \<Rightarrow> fl \<Rightarrow> fl" where
  "centroid_fit p lo c hi =
     (Fin (real_of_int (p - 1)) * lo + Fin (real_of_int p) * c + Fin (real_of_int (p + 1)) * hi)
       / (lo + c + hi)"

definition parabolic_shift :: "fl \<Rightarrow> fl \<Rightarrow> fl \<Rightarrow> fl" where
  "parabolic_shift lo c hi = (lo - hi) / (Fin 2 * lo - Fin 4 * c + Fin 2 * hi)"

definition gaussian_nom :: "fl \<Rightarrow> fl \<Rightarrow> fl" where
  "gaussian_nom lo hi = flog lo - flog hi"

definition gaussian_den :: "fl \<Rightarrow> fl \<Rightarrow> fl \<Rightarrow> fl" where
  "gaussian_den lo c hi = Fin 2 * flog lo - Fin 4 * flog c + Fin 2 * flog hi"

text \<open>
  \<open>find_subpixel_peak_position(corr, subpixel_method)\<close> on one map.  The result is paired
  with the caller's array after the call: past the border test the function executes
  \<open>corr += eps\<close> with \<open>eps = 1e-7\<close>.  The names \<open>cl, cr, cd, cu\<close> are the source's.
\<close>

definition find_subpixel_peak_position ::
  "fl matrix \<Rightarrow> string \<Rightarrow> fl matrix \<times> (error + fl \<times> fl)" where
  "find_subpixel_peak_position corr subpixel_method =
     (if \<not> known_subpixel_method subpixel_method
      then (corr, Inl (ValueError ''Method not implemented''))
      else
        (case find_first_peak corr of Inl e \<Rightarrow> (corr, Inl e)
         | Inr ((peak1_i, peak1_j), _) \<Rightarrow>
            if on_border peak1_i peak1_j (length corr) (ncols corr)
            then (corr, Inr (NaN, NaN))
            else
              (let corr' = add_eps eps_default corr;
                   p_i = int peak1_i; p_j = int peak1_j
               in (corr',
                   case collect [index2 corr' p_i p_j, index2 corr' (p_i - 1) p_j,
                                 index2 corr' (p_i + 1) p_j, index2 corr' p_i (p_j - 1),
                                 index2 corr' p_i (p_j + 1)] of
                     Inr [c, cl, cr, cd, cu] \<Rightarrow>
                       (let method =
                              (if list_ex (\<lambda>x. x < Fin 0) [c, cl, cr, cd, cu]
                                  \<and> subpixel_method = ''gaussian''
                               then ''parabolic'' else subpixel_method)
                        in if method = ''centroid''
                           then Inr (centroid_fit p_i cl c cr, centroid_fit p_j cd c cu)
                           else if method = ''gaussian''
                           then Inr (Fin (real_of_int p_i)
                                       + (if \<not> feq (gaussian_den cl c cr) (Fin 0)
                                          then gaussian_nom cl cr / gaussian_den cl c cr
                                          else Fin 0),
                                     Fin (real_of_int p_j)
                                       + (if \<not> feq (gaussian_den cd c cu) (Fin 0)
                                          then gaussian_nom cd cu / gaussian_den cd c cu
                                          else Fin 0))
                           else Inr (Fin (real_of_int p_i) + parabolic_shift cl c cr,
                                     Fin (real_of_int p_j) + parabolic_shift cd c cu))
                   | Inr _ \<Rightarrow> Inl IndexError
                   | Inl e \<Rightarrow> Inl e))))"

section \<open>Signal-to-noise evaluator\<close>

text \<open>
  \<open>sig2noise_ratio(correlation, sig2noise_method, width)\<close>, the loop version.  One step
  of the \<open>peak2peak\<close> loop gives the window's ratio before the final coercion of NaN to
  0; a \<open>masked\<close> second maximum stored into the float array becomes NaN.
\<close>

definition peak2peak_window :: "fl matrix \<Rightarrow> nat \<Rightarrow> fl matrix \<times> (error + fl)" where
  "peak2peak_window corr width =
     (case find_first_peak corr of Inl e \<Rightarrow> (corr, Inl e)
      | Inr ((peak1_i, peak1_j), corr_max1) \<Rightarrow>
         if corr_max1 < Fin (1 / 10 ^ 3)
            \<or> on_border peak1_i peak1_j (length corr) (ncols corr)
         then (corr, Inr (Fin 0))
         else
           (case find_second_peak corr (Some peak1_i) (Some peak1_j) width of
              (corr', Inl e) \<Rightarrow> (corr', Inl e)
            | (corr', Inr ((peak2_i, peak2_j), None)) \<Rightarrow> (corr', Inr NaN)
            | (corr', Inr ((peak2_i, peak2_j), Some corr_max2)) \<Rightarrow>
                (corr',
                 Inr (corr_max1 /
                       (if feq corr_max2 (Fin 0)
                           \<or> (on_border peak2_i peak2_j (length corr) (ncols corr)
                               \<and> Fin (1 / 2) * corr_max1 < corr_max2)
                        then NaN else corr_max2)))))"

definition peak2mean_max1 :: "fl matrix \<Rightarrow> error + fl" where
  "peak2mean_max1 corr =
     (case find_first_peak corr of Inl e \<Rightarrow> Inl e
      | Inr ((peak1_i, peak1_j), corr_max1) \<Rightarrow>
         if corr_max1 < Fin (1 / 10 ^ 3)
            \<or> on_border peak1_i peak1_j (length corr) (ncols corr)
         then Inr (Fin 0) else Inr corr_max1)"

definition nan_to_zero :: "fl \<Rightarrow> fl" where
  "nan_to_zero x = (if is_nan x then Fin 0 else x)"

text \<open>The loop over the windows, threading the caller's batch through the calls.\<close>

fun peak2peak_loop :: "fl batch \<Rightarrow> nat \<Rightarrow> fl batch \<times> (error + fl list)" where
  "peak2peak_loop [] width = ([], Inr [])"
| "peak2peak_loop (corr # rest) width =
     (case peak2peak_window corr width of
        (corr', Inl e) \<Rightarrow> (corr' # rest, Inl e)
      | (corr', Inr r) \<Rightarrow>
          (case peak2peak_loop rest width of
             (rest', Inl e) \<Rightarrow> (corr' # rest', Inl e)
           | (rest', Inr rs) \<Rightarrow> (corr' # rest', Inr (r # rs))))"

definition sig2noise_ratio ::
  "fl batch \<Rightarrow> string option \<Rightarrow> nat \<Rightarrow> fl batch \<times> (error + fl list)" where
  "sig2noise_ratio correlation sig2noise_method width =
     (if sig2noise_method = Some ''peak2peak''
      then (case peak2peak_loop correlation width of
              (c', Inl e) \<Rightarrow> (c', Inl e)
            | (c', Inr sig2noise) \<Rightarrow> (c', Inr (map nan_to_zero sig2noise)))
      else if sig2noise_method = Some ''peak2mean''
      then (correlation,
            case collect (map peak2mean_max1 correlation) of Inl e \<Rightarrow> Inl e
            | Inr corr_max1 \<Rightarrow>
                Inr (map (\<lambda>(m1, w).
                            nan_to_zero
                              (m1 / (let m2 = \<bar>np_mean (concat w)\<bar>
                                     in if feq m2 (Fin 0) then NaN else m2)))
                         (zip corr_max1 correlation)))
      else (correlation, Inl (ValueError ''wrong sig2noise_method'')))"

text \<open>
  \<open>vectorized_sig2noise_ratio\<close>.  The source computes a boolean array \<open>flag\<close> of the
  windows to reject and then executes \<open>peak2peak[flag is True] = 0\<close>.  \<open>flag is True\<close>
  compares the identity of an array with the constant \<open>True\<close>: it is the Python value
  \<open>False\<close>, and an assignment through the scalar index \<open>False\<close> selects nothing.  So the
  returned array is the one \<open>np.divide(..., out=zeros, where=(peaks2 > 0))\<close> filled;
  \<open>flag\<close> is kept in the model as the source computes it, and is not used.

  \<open>peaks2\<close> is a masked array.  The comparisons and the division, whose output is a plain
  array, read its data, and where a window is fully masked the masked maximum holds the
  fill value \<open>1e20\<close> as its data.
\<close>

fun ma_data :: "fl option \<Rightarrow> fl" where
  "ma_data None = Fin (10 ^ 20)"
| "ma_data (Some v) = v"

definition divide_where_pos :: "fl \<Rightarrow> fl \<Rightarrow> fl" where
  "divide_where_pos a b = (if Fin 0 < b then a / b else Fin 0)"

definition first_peak_flag :: "nat \<Rightarrow> nat \<Rightarrow> (nat \<times> nat \<times> nat) \<times> fl \<Rightarrow> bool" where
  "first_peak_flag R C p =
     (snd p < Fin (1 / 10 ^ 3) \<or> on_border (fst (snd (fst p))) (snd (snd (fst p))) R C)"

definition vectorized_sig2noise_ratio ::
  "fl batch \<Rightarrow> string option \<Rightarrow> nat \<Rightarrow> fl batch \<times> (error + fl list)" where
  "vectorized_sig2noise_ratio correlation sig2noise_method width =
     (if sig2noise_method = Some ''peak2peak''
      then
        (case find_all_first_peaks correlation of Inl e \<Rightarrow> (correlation, Inl e)
         | Inr (ind1, peaks1) \<Rightarrow>
            (case find_all_second_peaks correlation width of
               (c', Inl e) \<Rightarrow> (c', Inl e)
             | (c', Inr (ind2, peaks2)) \<Rightarrow>
                (let flag = map (\<lambda>(p1, p2).
                              first_peak_flag (shape1 correlation) (shape2 correlation) p1
                              \<or> first_peak_flag (shape1 correlation) (shape2 correlation)
                                   (fst p2, ma_data (snd p2)))
                            (zip (zip ind1 peaks1) (zip ind2 peaks2));
                     peak2peak = map (\<lambda>(a, b). divide_where_pos a (ma_data b))
                                     (zip peaks1 peaks2)
                 in (c', Inr peak2peak))))
      else if sig2noise_method = Some ''peak2mean''
      then
        (correlation,
         case find_all_first_peaks correlation of Inl e \<Rightarrow> Inl e
         | Inr (peaks, peaks1max) \<Rightarrow>
            (let peaks2mean = map (\<lambda>w. \<bar>np_nanmean (concat w)\<bar>) correlation;
                 flag = map (first_peak_flag (shape1 correlation) (shape2 correlation))
                            (zip peaks peaks1max);
                 peak2mean = map (\<lambda>(a, b). divide_where_pos a b) (zip peaks1max peaks2mean)
             in Inr peak2mean))
      else (correlation, Inl (ValueError ''sig2noise_method not supported'')))"

section \<open>Displacement assembler\<close>

text \<open>
  What \<open>vectorized_correlation_to_displacements\<close> returns: the triple
  \<open>(disp_vx, disp_vy, len(invalid))\<close>, flat or reshaped to the field grid, or, from its
  early return, the single array \<open>np.zeros((N, 2)) * np.nan\<close>.
\<close>

datatype displacements =
    Flat "fl list" "fl list" nat
  | Grid "fl matrix" "fl matrix" nat
  | NanBlock "fl matrix"

text \<open>
  \<open>reshape((n_rows, n_cols))\<close> of a flat array; one dimension may be \<open>-1\<close> and is then
  inferred.
\<close>

fun chunks :: "nat \<Rightarrow> nat \<Rightarrow> 'a list \<Rightarrow> 'a matrix" where
  "chunks 0 c xs = []"
| "chunks (Suc r) c xs = take c xs # chunks r c (drop c xs)"

definition np_reshape2 :: "'a list \<Rightarrow> int \<Rightarrow> int \<Rightarrow> error + 'a matrix" where
  "np_reshape2 xs r c =
     (let n = int (length xs) in
      if 0 \<le> r \<and> 0 \<le> c \<and> r * c = n then Inr (chunks (nat r) (nat c) xs)
      else if r = - 1 \<and> 0 < c \<and> n mod c = 0 then Inr (chunks (nat (n div c)) (nat c) xs)
      else if c = - 1 \<and> 0 < r \<and> n mod r = 0 then Inr (chunks (nat r) (nat (n div r)) xs)
      else Inl (ValueError ''cannot reshape array''))"

text \<open>
  The five samples of the stencil of window \<open>k\<close> at the (possibly replaced) peak, read
  with integer-array indexing: \<open>c, cl, cr, cd, cu\<close>.  A negative index counts from the
  end and an index out of range raises IndexError: the arrays are modelled with NumPy's
  semantics here as everywhere else (the masked views of the peak finders exist for
  NumPy arrays only).  \<open>cupy\<close>'s own integer-array indexing does not raise for an index
  out of range, it wraps it around; that behaviour is not modelled.
\<close>

definition stencil :: "fl matrix \<Rightarrow> int \<Rightarrow> int \<Rightarrow> error + fl list" where
  "stencil w p_i p_j =
     collect [index2 w p_i p_j, index2 w (p_i - 1) p_j, index2 w (p_i + 1) p_j,
              index2 w p_i (p_j - 1), index2 w p_i (p_j + 1)]"

text \<open>The window's sub-pixel position along one axis, before the centre is subtracted.\<close>

definition gaussian_inv :: "fl list \<Rightarrow> bool" where
  "gaussian_inv st = list_ex (\<lambda>x. x \<le> Fin 0) st"

definition subpixel_position :: "string \<Rightarrow> bool \<Rightarrow> int \<Rightarrow> fl \<Rightarrow> fl \<Rightarrow> fl \<Rightarrow> fl" where
  "subpixel_position subpixel_method fallback p lo c hi =
     (if subpixel_method = ''centroid'' then centroid_fit p lo c hi
      else if subpixel_method = ''gaussian''
      then Fin (real_of_int p)
             + (if fallback then parabolic_shift lo c hi
                else gaussian_nom lo hi / gaussian_den lo c hi)
      else Fin (real_of_int p) + parabolic_shift lo c hi)"

text \<open>
  \<open>vectorized_correlation_to_displacements(corr, n_rows, n_cols, subpixel_method, eps)\<close>.
  The result is paired with the caller's batch after the call: the function executes
  \<open>corr += eps\<close>.

  \<open>invalid\<close> is the concatenation of four index lists, one per border, so a window whose
  peak is in a corner is listed twice.  The peaks of the listed windows are replaced by
  the centre of the map before the stencil is read.  The early return compares
  \<open>len(invalid)\<close> with the number of windows.  In the gaussian branch the logarithms are
  taken for every window and the windows with a sample \<open>\<le> 0\<close> are then overwritten with
  the parabolic fit.
\<close>

definition invalid_windows :: "nat \<Rightarrow> nat \<Rightarrow> int list \<Rightarrow> int list \<Rightarrow> nat list" where
  "invalid_windows R C peaks1_i peaks1_j =
     (let mask_width = 1 in
        np_where (\<lambda>i. i < mask_width) peaks1_i
        @ np_where (\<lambda>i. int R - mask_width - 1 < i) peaks1_i
        @ np_where (\<lambda>j. j < mask_width - 0) peaks1_j
        @ np_where (\<lambda>j. int C - mask_width - 1 < j) peaks1_j)"

text \<open>\<open>(disp_vx, disp_vy)\<close> of one window from its stencil \<open>[c, cl, cr, cd, cu]\<close>.\<close>

definition raw_displacement :: "string \<Rightarrow> nat \<Rightarrow> nat \<Rightarrow> fl list \<times> int \<times> int \<Rightarrow> fl \<times> fl" where
  "raw_displacement subpixel_method R C =
     (\<lambda>(st, p_i, p_j).
        (subpixel_position subpixel_method (gaussian_inv st) p_j (st ! 3) (st ! 0) (st ! 4)
           - Fin (real (C div 2)),
         subpixel_position subpixel_method (gaussian_inv st) p_i (st ! 1) (st ! 0) (st ! 2)
           - Fin (real (R div 2))))"

text \<open>
  The two \<open>return\<close> statements at the end: flat when \<open>n_rows\<close> or \<open>n_cols\<close> is \<open>None\<close>,
  reshaped to \<open>(n_rows, n_cols)\<close> otherwise.
\<close>

definition return_displacements ::
  "fl list \<Rightarrow> fl list \<Rightarrow> nat \<Rightarrow> int option \<Rightarrow> int option \<Rightarrow> error + displacements" where
  "return_displacements disp_vx disp_vy n_invalid n_rows n_cols =
     (case (n_rows, n_cols) of
        (Some r, Some c) \<Rightarrow>
          (case np_reshape2 disp_vx r c of Inl e \<Rightarrow> Inl e
           | Inr gx \<Rightarrow>
              (case np_reshape2 disp_vy r c of Inl e \<Rightarrow> Inl e
               | Inr gy \<Rightarrow> Inr (Grid gx gy n_invalid)))
      | _ \<Rightarrow> Inr (Flat disp_vx disp_vy n_invalid))"

definition assemble ::
  "fl batch \<Rightarrow> (nat \<times> nat \<times> nat) list \<Rightarrow> int option \<Rightarrow> int option \<Rightarrow> string
     \<Rightarrow> error + displacements" where
  "assemble corr peaks n_rows n_cols subpixel_method =
     (let R = shape1 corr; C = shape2 corr;
          peaks1_i = map (\<lambda>p. int (fst (snd p))) peaks;
          peaks1_j = map (\<lambda>p. int (snd (snd p))) peaks;
          invalid = invalid_windows R C peaks1_i peaks1_j;
          peaks1_i' = assign_at peaks1_i invalid (int (R div 2));
          peaks1_j' = assign_at peaks1_j invalid (int (C div 2))
      in if length invalid = length corr
         then Inr (NanBlock (replicate (length corr) [Fin 0 * NaN, Fin 0 * NaN]))
         else
           (case collect (map (\<lambda>(w, p_i, p_j). stencil w p_i p_j)
                              (zip corr (zip peaks1_i' peaks1_j'))) of
              Inl e \<Rightarrow> Inl e
            | Inr sts \<Rightarrow>
               (let disp = map (raw_displacement subpixel_method R C)
                               (zip sts (zip peaks1_i' peaks1_j'));
                    disp_vx = assign_at (map fst disp) invalid NaN;
                    disp_vy = assign_at (map snd disp) invalid NaN
                in return_displacements disp_vx disp_vy (length invalid) n_rows n_cols)))"

definition vectorized_correlation_to_displacements ::
  "fl batch \<Rightarrow> int option \<Rightarrow> int option \<Rightarrow> string \<Rightarrow> fl
     \<Rightarrow> fl batch \<times> (error + displacements)" where
  "vectorized_correlation_to_displacements corr n_rows n_cols subpixel_method eps =
     (if \<not> known_subpixel_method subpixel_method
      then (corr, Inl (ValueError ''Method not implemented''))
      else
        (let corr' = map (add_eps eps) corr in
         (corr',
          case find_all_first_peaks corr' of Inl e \<Rightarrow> Inl e
          | Inr (peaks, _) \<Rightarrow> assemble corr' peaks n_rows n_cols subpixel_method)))"

text \<open>The displacement \<open>(disp_vx, disp_vy)\<close> of window \<open>k\<close> in what the assembler returns.\<close>

fun window_displacement :: "displacements \<Rightarrow> nat \<Rightarrow> fl \<times> fl" where
  "window_displacement (Flat vx vy n) k = (vx ! k, vy ! k)"
| "window_displacement (Grid gx gy n) k = (concat gx ! k, concat gy ! k)"
| "window_displacement (NanBlock a) k = (a ! k ! 0, a ! k ! 1)"

section \<open>Grid geometry\<close>

text \<open>
  \<open>get_field_shape\<close>: \<open>(image_size - search_area_size) // (search_area_size - overlap) + 1\<close>
  on integer arrays of two elements.  NumPy's \<open>//\<close> on integers is floor division and
  gives 0 for a zero divisor, which is what \<open>div\<close> on \<open>int\<close> does.
\<close>

definition get_field_shape :: "int \<times> int \<Rightarrow> int \<times> int \<Rightarrow> int \<times> int \<Rightarrow> int \<times> int" where
  "get_field_shape image_size search_area_size overlap =
     ((fst image_size - fst search_area_size) div (fst search_area_size - fst overlap) + 1,
      (snd image_size - snd search_area_size) div (snd search_area_size - snd overlap) + 1)"

text \<open>
  \<open>get_coordinates\<close> for square windows.  \<open>coordinate_axes\<close> gives the two 1-D arrays
  \<open>x\<close> and \<open>y\<close> the source builds before \<open>np.meshgrid(x, y)\<close>; \<open>np.arange(n)\<close> is empty
  for \<open>n \<le> 0\<close>.
\<close>

definition coordinate_axis :: "int \<Rightarrow> int \<Rightarrow> int \<Rightarrow> int \<Rightarrow> bool \<Rightarrow> real list" where
  "coordinate_axis image_dim field_dim search_area_size overlap center_on_field =
     map (\<lambda>k. real k * real_of_int (search_area_size - overlap)
                 + real_of_int search_area_size / 2
                 + (if center_on_field
                    then real_of_int
                           ((image_dim - 1
                             - ((field_dim - 1) * (search_area_size - overlap)
                                + (search_area_size - 1))) div 2)
                    else 0))
         [0..<nat field_dim]"

definition coordinate_axes ::
  "int \<times> int \<Rightarrow> int \<Rightarrow> int \<Rightarrow> bool \<Rightarrow> real list \<times> real list" where
  "coordinate_axes image_size search_area_size overlap center_on_field =
     (let field_shape = get_field_shape image_size (search_area_size, search_area_size)
                          (overlap, overlap)
      in (coordinate_axis (snd image_size) (snd field_shape) search_area_size overlap
            center_on_field,
          coordinate_axis (fst image_size) (fst field_shape) search_area_size overlap
            center_on_field))"

definition meshgrid :: "'a list \<Rightarrow> 'a list \<Rightarrow> 'a matrix \<times> 'a matrix" where
  "meshgrid x y = (replicate (length y) x, map (\<lambda>v. replicate (length x) v) y)"

definition get_coordinates ::
  "int \<times> int \<Rightarrow> int \<Rightarrow> int \<Rightarrow> bool \<Rightarrow> real matrix \<times> real matrix" where
  "get_coordinates image_size search_area_size overlap center_on_field =
     (case coordinate_axes image_size search_area_size overlap center_on_field of
        (x, y) \<Rightarrow> meshgrid x y)"

text \<open>
  \<open>get_rect_coordinates\<close>: \<open>y\<close> from \<open>get_coordinates\<close> with the row window and overlap,
  \<open>x\<close> from \<open>get_coordinates\<close> with the column ones, then
  \<open>np.meshgrid(x[0,:], y[:,0])\<close>.  \<open>x[0,:]\<close> raises IndexError when the second grid has
  no row and \<open>y[:,0]\<close> when the first has no column; here the two are returned as the
  1-D arrays the final meshgrid is built from.
\<close>

definition rect_coordinate_axes ::
  "int \<times> int \<Rightarrow> int \<times> int \<Rightarrow> int \<times> int \<Rightarrow> bool \<Rightarrow> error + real list \<times> real list" where
  "rect_coordinate_axes image_size window_size overlap center_on_field =
     (case coordinate_axes image_size (fst window_size) (fst overlap) center_on_field of
        (x1, y1) \<Rightarrow>
          (case coordinate_axes image_size (snd window_size) (snd overlap) center_on_field of
             (x2, y2) \<Rightarrow>
               if y2 = [] then Inl IndexError
               else if x1 = [] then Inl IndexError
               else Inr (x2, y1)))"

definition get_rect_coordinates ::
  "int \<times> int \<Rightarrow> int \<times> int \<Rightarrow> int \<times> int \<Rightarrow> bool \<Rightarrow> error + real matrix \<times> real matrix" where
  "get_rect_coordinates image_size window_size overlap center_on_field =
     (case rect_coordinate_axes image_size window_size overlap center_on_field of
        Inl e \<Rightarrow> Inl e
      | Inr (x, y) \<Rightarrow> Inr (meshgrid x y))"

section \<open>Window extractor\<close>

text \<open>\<open>astype(int)\<close> on a float: truncation towards zero.\<close>

definition trunc :: "real \<Rightarrow> int" where
  "trunc x = (if 0 \<le> x then \<lfloor>x\<rfloor> else \<lceil>x\<rceil>)"

definition image_shape :: "'a matrix \<Rightarrow> int \<times> int" where
  "image_shape img = (int (length img), int (ncols img))"

text \<open>
  \<open>sliding_window_array(image, window_size, overlap, block_range)\<close>: the top-left corners
  of the windows, flattened row by row, optionally sliced to \<open>block_range\<close>, and the
  gather \<open>image[win_y, win_x]\<close> (integer-array indexing: negative indices wrap, an index
  out of range raises IndexError).
\<close>

definition py_slice :: "'a list \<Rightarrow> nat \<Rightarrow> nat \<Rightarrow> 'a list" where
  "py_slice xs lo hi = take (hi - lo) (drop lo xs)"

definition sliding_window_array ::
  "'a matrix \<Rightarrow> int \<times> int \<Rightarrow> int \<times> int \<Rightarrow> (nat \<times> nat) option \<Rightarrow> error + 'a batch" where
  "sliding_window_array img window_size overlap block_range =
     (case get_rect_coordinates (image_shape img) window_size overlap False of
        Inl e \<Rightarrow> Inl e
      | Inr (X, Y) \<Rightarrow>
         (let x = map (\<lambda>v. trunc (v - real_of_int (snd window_size div 2))) (concat X);
              y = map (\<lambda>v. trunc (v - real_of_int (fst window_size div 2))) (concat Y);
              corners = (case block_range of None \<Rightarrow> zip y x
                         | Some (b0, b1) \<Rightarrow> zip (py_slice y b0 b1) (py_slice x b0 b1))
          in collect
               (map (\<lambda>(y0, x0).
                       collect
                         (map (\<lambda>r. collect
                                       (map (\<lambda>c. index2 img (y0 + int r) (x0 + int c))
                                            [0..<nat (snd window_size)]))
                              [0..<nat (fst window_size)]))
                    corners)))"

section \<open>Intensity normalizer\<close>

text \<open>
  \<open>normalize_intensity(window)\<close> on a batch of finite values: the mean, the standard
  deviation and the division are per window (\<open>axis=(-2, -1), keepdims=True\<close>); the
  upper bound of the final \<open>np.clip(window, 0, window.max())\<close> is the maximum over the
  whole batch, and \<open>max\<close> of an array without elements raises ValueError.
\<close>

definition mean_real :: "real list \<Rightarrow> real" where
  "mean_real xs = sum_list xs / real (length xs)"

definition std_real :: "real list \<Rightarrow> real" where
  "std_real xs = sqrt (mean_real (map (\<lambda>x. \<bar>x - mean_real xs\<bar> ^ 2) xs))"

definition map_matrix :: "('a \<Rightarrow> 'b) \<Rightarrow> 'a matrix \<Rightarrow> 'b matrix" where
  "map_matrix f m = map (map f) m"

definition standardize_window :: "real matrix \<Rightarrow> real matrix" where
  "standardize_window w =
     (let w1 = map_matrix (\<lambda>x. x - mean_real (concat w)) w;
          tmp = std_real (concat w1)
      in map_matrix (\<lambda>x. if tmp \<noteq> 0 then x / tmp else 0) w1)"

definition np_clip :: "real \<Rightarrow> real \<Rightarrow> real \<Rightarrow> real" where
  "np_clip x lo hi = min (max x lo) hi"

definition normalize_intensity :: "real batch \<Rightarrow> error + real batch" where
  "normalize_intensity window =
     (let window' = map standardize_window window in
      if concat (concat window') = []
      then Inl (ValueError ''zero-size array to reduction operation maximum'')
      else Inr (map (map_matrix (\<lambda>x. np_clip x 0 (Max (set (concat (concat window'))))))
                    window'))"

text \<open>
  The normalizer of one window as the specification words it, for comparison with the
  code: subtract the window's mean, divide by the window's standard deviation where it
  is not zero and leave 0 where it is, and clip to \<open>[0, the window's maximum]\<close>, the
  maximum being that of the window's normalized values (what \<open>window.max()\<close> of the code
  is taken of).
\<close>

definition spec_normalize_window :: "real matrix \<Rightarrow> real matrix" where
  "spec_normalize_window w =
     (let m = mean_real (concat w);
          s = std_real (concat w);
          z = map_matrix (\<lambda>x. if s \<noteq> 0 then (x - m) / s else 0) w;
          top = Max (set (concat z))
      in map_matrix (\<lambda>x. min (max x 0) top) z)"

section \<open>Batched FFT correlator\<close>

text \<open>
  \<open>rfft2\<close>, \<open>irfft2\<close> and \<open>fftshift\<close> are library functions (\<open>cupy.fft\<close>, with NumPy's
  interface); they are modelled from the library's documentation, in exact arithmetic,
  on one window; on a batch they act on each window (the last two axes).

  \<open>rfft2\<close> of an \<open>R \<times> C\<close> real array is the 2-D discrete Fourier transform restricted to
  the first \<open>C div 2 + 1\<close> columns.  \<open>irfft2\<close> without an explicit output shape takes an
  \<open>R \<times> M\<close> half spectrum to an \<open>R \<times> 2 * (M - 1)\<close> real array: an inverse complex
  transform along the rows axis, then the inverse real transform of length
  \<open>n = 2 * (M - 1)\<close> along the last axis, which uses the real parts of the first and the
  last entry.  Both raise ValueError for a transform of length 0.
\<close>

definition twiddle :: "int \<Rightarrow> nat \<Rightarrow> complex" where
  "twiddle k n = cis (2 * pi * real_of_int k / real n)"

definition rfft2 :: "real matrix \<Rightarrow> error + complex matrix" where
  "rfft2 a =
     (let R = length a; C = ncols a in
      if R = 0 \<or> C = 0 then Inl (ValueError ''Invalid number of FFT data points (0)'')
      else Inr (map (\<lambda>u. map (\<lambda>v. \<Sum>m<R. \<Sum>n<C.
                                  complex_of_real (a ! m ! n)
                                    * twiddle (- int (u * m)) R * twiddle (- int (v * n)) C)
                              [0..<C div 2 + 1])
                    [0..<R]))"

definition irfft2 :: "complex matrix \<Rightarrow> error + real matrix" where
  "irfft2 P =
     (let R = length P; M = ncols P; n = 2 * (M - 1) in
      if R = 0 \<or> n = 0 then Inl (ValueError ''Invalid number of FFT data points (0)'')
      else Inr (map (\<lambda>r. map (\<lambda>j.
                   (Re (\<Sum>u<R. P ! u ! 0 * twiddle (int (u * r)) R)
                    + 2 * (\<Sum>v = 1..<M - 1.
                             Re ((\<Sum>u<R. P ! u ! v * twiddle (int (u * r)) R)
                                  * twiddle (int (v * j)) n))
                    + Re (\<Sum>u<R. P ! u ! (M - 1) * twiddle (int (u * r)) R) * (- 1) ^ j)
                   / (real R * real n))
                              [0..<n])
                    [0..<R]))"

text \<open>\<open>fftshift\<close> along one axis: \<open>roll\<close> by half the length.\<close>

definition roll :: "nat \<Rightarrow> 'a list \<Rightarrow> 'a list" where
  "roll s xs = (if xs = [] then []
                else drop (length xs - s mod length xs) xs
                       @ take (length xs - s mod length xs) xs)"

definition fftshift2 :: "'a matrix \<Rightarrow> 'a matrix" where
  "fftshift2 m = roll (length m div 2) (map (\<lambda>row. roll (length row div 2) row) m)"

text \<open>
  The elementwise product of two arrays broadcasts: along an axis the two lengths are
  equal, or one of them is 1 and its entry is repeated; anything else raises ValueError.
\<close>

definition broadcast :: "'a list \<Rightarrow> 'b list \<Rightarrow> error + ('a \<times> 'b) list" where
  "broadcast xs ys =
     (if length xs = length ys then Inr (zip xs ys)
      else if length xs = 1 then Inr (map (\<lambda>y. (hd xs, y)) ys)
      else if length ys = 1 then Inr (map (\<lambda>x. (x, hd ys)) xs)
      else Inl (ValueError ''operands could not be broadcast together''))"

text \<open>\<open>conj(fa) * fb\<close> on the spectra of one window pair, broadcast along both axes.\<close>

definition spectrum_product ::
  "complex matrix \<Rightarrow> complex matrix \<Rightarrow> error + complex matrix" where
  "spectrum_product fa fb =
     (case broadcast fa fb of Inl e \<Rightarrow> Inl e
      | Inr rows \<Rightarrow>
          collect (map (\<lambda>(ra, rb). case broadcast ra rb of Inl e \<Rightarrow> Inl e
                                   | Inr cols \<Rightarrow> Inr (map (\<lambda>(x, y). cnj x * y) cols))
                       rows))"

text \<open>
  One window pair of the circular branch:
  \<open>fftshift(irfft2(conj(rfft2(a)) * rfft2(b)).real, axes=(-2, -1))\<close>.
\<close>

definition circular_correlation :: "real matrix \<Rightarrow> real matrix \<Rightarrow> error + fl matrix" where
  "circular_correlation a b =
     (case rfft2 a of Inl e \<Rightarrow> Inl e
      | Inr fa \<Rightarrow>
         (case rfft2 b of Inl e \<Rightarrow> Inl e
          | Inr fb \<Rightarrow>
             (case spectrum_product fa fb of Inl e \<Rightarrow> Inl e
              | Inr p \<Rightarrow>
                 (case irfft2 p of
                    Inl e \<Rightarrow> Inl e
                  | Inr c \<Rightarrow> Inr (fftshift2 (map_matrix Fin c))))))"

text \<open>
  \<open>fft_correlate_images(image_a, image_b, correlation_method, normalized_correlation)\<close>.
  The transform arguments of the source are overwritten by the \<open>cupy.fft\<close> functions in
  the circular branch, where the two batches are broadcast along the window axis too.
  For a method that is neither \<open>linear\<close> nor \<open>circular\<close> the source prints a message and
  reaches \<open>return corr\<close> with \<open>corr\<close> unbound.
\<close>

definition fft_correlate_images ::
  "real batch \<Rightarrow> real batch \<Rightarrow> string \<Rightarrow> bool \<Rightarrow> error + fl batch" where
  "fft_correlate_images image_a image_b correlation_method normalized_correlation =
     (if normalized_correlation then Inl (NotImplementedError ''normalized_correlation'')
      else if correlation_method = ''linear''
      then Inl (NotImplementedError ''correlation_method == linear'')
      else if correlation_method = ''circular''
      then (case broadcast image_a image_b of Inl e \<Rightarrow> Inl e
            | Inr pairs \<Rightarrow> collect (map (\<lambda>(a, b). circular_correlation a b) pairs))
      else Inl UnboundLocalError)"

section \<open>The pipeline and its block scheduler\<close>

text \<open>
  The stages of \<open>extended_search_area_piv\<close> that work on arrays are recorded in a trace,
  one event for each stage that returned: a window batch extracted from a frame, a
  correlation batch computed, a correlation batch converted to displacements.  The
  printed diagnostics and the memory-pool calls are left out.
\<close>

datatype event = Extracted | Correlated | Converted

type_synonym piv_result = "fl matrix \<times> fl matrix \<times> fl matrix"

text \<open>\<open>u[block_start:block_end] = values\<close> on a 1-D array.\<close>

definition assign_slice :: "'a list \<Rightarrow> nat \<Rightarrow> nat \<Rightarrow> 'a list \<Rightarrow> error + 'a list" where
  "assign_slice u lo hi vals =
     (let lo' = min lo (length u); hi' = max lo' (min hi (length u)) in
      if length vals = hi' - lo' then Inr (take lo' u @ vals @ drop hi' u)
      else if length vals = 1 then Inr (take lo' u @ replicate (hi' - lo') (hd vals) @ drop hi' u)
      else Inl (ValueError ''could not broadcast input array''))"

text \<open>
  One iteration of the block loop, from the state \<open>(u, v, total_bad)\<close> and the trace so
  far.  The three-way unpacking of the assembler's result fails on the array of its
  early return.
\<close>

definition block_step ::
  "real matrix \<Rightarrow> real matrix \<Rightarrow> int \<times> int \<Rightarrow> int \<times> int \<Rightarrow> string \<Rightarrow> bool \<Rightarrow> string
     \<Rightarrow> nat \<Rightarrow> nat \<Rightarrow> event list \<times> (fl list \<times> fl list \<times> nat)
     \<Rightarrow> event list \<times> (error + fl list \<times> fl list \<times> nat)" where
  "block_step frame_a frame_b search_area_size overlap correlation_method
       normalized_correlation subpixel_method areas_per_block i st =
     (case st of (tr, u, v, total_bad) \<Rightarrow>
       (let block_start = i * areas_per_block; block_end = (i + 1) * areas_per_block in
        case sliding_window_array frame_a search_area_size overlap
               (Some (block_start, block_end)) of
          Inl e \<Rightarrow> (tr, Inl e)
        | Inr aa \<Rightarrow>
           (case sliding_window_array frame_b search_area_size overlap
                   (Some (block_start, block_end)) of
              Inl e \<Rightarrow> (tr @ [Extracted], Inl e)
            | Inr bb \<Rightarrow>
               (case fft_correlate_images aa bb correlation_method normalized_correlation of
                  Inl e \<Rightarrow> (tr @ [Extracted, Extracted], Inl e)
                | Inr corr \<Rightarrow>
                   (case snd (vectorized_correlation_to_displacements corr None None
                                subpixel_method eps_default) of
                      Inl e \<Rightarrow> (tr @ [Extracted, Extracted, Correlated], Inl e)
                    | Inr (Flat vx vy invalid) \<Rightarrow>
                        (tr @ [Extracted, Extracted, Correlated, Converted],
                         case assign_slice u block_start block_end vx of Inl e \<Rightarrow> Inl e
                         | Inr u' \<Rightarrow>
                            (case assign_slice v block_start block_end vy of Inl e \<Rightarrow> Inl e
                             | Inr v' \<Rightarrow> Inr (u', v', total_bad + invalid)))
                    | Inr _ \<Rightarrow>
                        (tr @ [Extracted, Extracted, Correlated, Converted],
                         Inl (ValueError ''cannot unpack the returned array'')))))))"

fun block_loop ::
  "real matrix \<Rightarrow> real matrix \<Rightarrow> int \<times> int \<Rightarrow> int \<times> int \<Rightarrow> string \<Rightarrow> bool \<Rightarrow> string
     \<Rightarrow> nat \<Rightarrow> nat list \<Rightarrow> event list \<times> (fl list \<times> fl list \<times> nat)
     \<Rightarrow> event list \<times> (error + fl list \<times> fl list \<times> nat)" where
  "block_loop frame_a frame_b search_area_size overlap correlation_method
       normalized_correlation subpixel_method areas_per_block [] st = (fst st, Inr (snd st))"
| "block_loop frame_a frame_b search_area_size overlap correlation_method
       normalized_correlation subpixel_method areas_per_block (i # blocks) st =
     (case block_step frame_a frame_b search_area_size overlap correlation_method
             normalized_correlation subpixel_method areas_per_block i st of
        (tr, Inl e) \<Rightarrow> (tr, Inl e)
      | (tr, Inr st') \<Rightarrow>
          block_loop frame_a frame_b search_area_size overlap correlation_method
            normalized_correlation subpixel_method areas_per_block blocks (tr, st'))"

text \<open>
  The tail of the pipeline, common to both branches: any \<open>sig2noise_method\<close> other than
  \<open>None\<close> raises NotImplementedError, otherwise the signal-to-noise grid is
  \<open>zeros_like(u) * nan\<close> and \<open>u\<close> and \<open>v\<close> are divided by \<open>dt\<close>.
\<close>

definition finish_piv ::
  "string option \<Rightarrow> int \<Rightarrow> int \<Rightarrow> fl \<Rightarrow> fl matrix \<Rightarrow> fl matrix \<Rightarrow> error + piv_result" where
  "finish_piv sig2noise_method n_rows n_cols dt u v =
     (if sig2noise_method \<noteq> None
      then Inl (NotImplementedError ''sig2noise_method is not None'')
      else
        (case np_reshape2 (concat (map_matrix (\<lambda>_. Fin 0 * NaN) u)) n_rows n_cols of
           Inl e \<Rightarrow> Inl e
         | Inr sig2noise \<Rightarrow>
             Inr (map_matrix (\<lambda>x. x / dt) u, map_matrix (\<lambda>x. x / dt) v, sig2noise)))"

text \<open>
  The branch without blocks: both window batches whole, one correlation, one conversion
  with the field shape.  The three-way unpacking of an early-return array of three rows
  succeeds and the formatted print that follows raises TypeError; of any other number of
  rows it fails.  (With both \<open>n_rows\<close> and \<open>n_cols\<close> given the assembler does not return
  the flat triple.)
\<close>

definition whole_batch_piv ::
  "real matrix \<Rightarrow> real matrix \<Rightarrow> int \<times> int \<Rightarrow> int \<times> int \<Rightarrow> string \<Rightarrow> bool \<Rightarrow> string
     \<Rightarrow> int \<Rightarrow> int \<Rightarrow> event list \<times> (error + fl matrix \<times> fl matrix)" where
  "whole_batch_piv frame_a frame_b search_area_size overlap correlation_method
       normalized_correlation subpixel_method n_rows n_cols =
     (case sliding_window_array frame_a search_area_size overlap None of
        Inl e \<Rightarrow> ([], Inl e)
      | Inr aa \<Rightarrow>
         (case sliding_window_array frame_b search_area_size overlap None of
            Inl e \<Rightarrow> ([Extracted], Inl e)
          | Inr bb \<Rightarrow>
             (case fft_correlate_images aa bb correlation_method normalized_correlation of
                Inl e \<Rightarrow> ([Extracted, Extracted], Inl e)
              | Inr corr \<Rightarrow>
                 (case snd (vectorized_correlation_to_displacements corr
                              (Some n_rows) (Some n_cols) subpixel_method eps_default) of
                    Inl e \<Rightarrow> ([Extracted, Extracted, Correlated], Inl e)
                  | Inr (Grid u v invalid) \<Rightarrow>
                      ([Extracted, Extracted, Correlated, Converted], Inr (u, v))
                  | Inr (NanBlock a) \<Rightarrow>
                      ([Extracted, Extracted, Correlated, Converted],
                       Inl (if length a = 3 then TypeError
                            else ValueError ''cannot unpack the returned array''))
                  | Inr (Flat vx vy invalid) \<Rightarrow>
                      ([Extracted, Extracted, Correlated, Converted], Inl TypeError)))))"

text \<open>
  The branch with blocks, for the ceiling \<open>max_array_size\<close>.  \<open>n_rows\<close> and \<open>n_cols\<close> are
  NumPy integers, so \<open>num_areas / areas_per_block\<close> with \<open>areas_per_block = 0\<close> is an
  infinity or NaN, and its conversion to \<open>int\<close> raises.
\<close>

definition block_scheduled_piv ::
  "real matrix \<Rightarrow> real matrix \<Rightarrow> int \<times> int \<Rightarrow> int \<times> int \<Rightarrow> string \<Rightarrow> bool \<Rightarrow> string
     \<Rightarrow> int \<Rightarrow> int \<Rightarrow> int \<Rightarrow> event list \<times> (error + fl matrix \<times> fl matrix)" where
  "block_scheduled_piv frame_a frame_b search_area_size overlap correlation_method
       normalized_correlation subpixel_method n_rows n_cols max_array_size =
     (let num_areas = n_rows * n_cols in
      if num_areas < 0 then ([], Inl (ValueError ''negative dimensions are not allowed''))
      else
        (let area_size = fst search_area_size * snd search_area_size;
             areas_per_block = max_array_size div area_size
         in
         if area_size = 0 then ([], Inl ZeroDivisionError)
         else if areas_per_block = 0
         then ([], Inl (if num_areas = 0
                        then ValueError ''cannot convert float NaN to integer''
                        else OverflowError))
         else
           (let num_blocks = \<lceil>real_of_int num_areas / real_of_int areas_per_block\<rceil> in
            case block_loop frame_a frame_b search_area_size overlap correlation_method
                   normalized_correlation subpixel_method (nat areas_per_block)
                   [0..<nat num_blocks]
                   ([], replicate (nat num_areas) (Fin 0), replicate (nat num_areas) (Fin 0), 0) of
              (tr, Inl e) \<Rightarrow> (tr, Inl e)
            | (tr, Inr (u, v, total_bad)) \<Rightarrow>
                (tr,
                 case np_reshape2 u n_rows n_cols of Inl e \<Rightarrow> Inl e
                 | Inr gu \<Rightarrow>
                    (case np_reshape2 v n_rows n_cols of Inl e \<Rightarrow> Inl e
                     | Inr gv \<Rightarrow> Inr (gu, gv))))))"

text \<open>
  \<open>extended_search_area_piv\<close>.  The source accepts an integer or a pair for
  \<open>window_size\<close>, \<open>overlap\<close> and \<open>search_area_size\<close> and turns an integer \<open>n\<close> into
  \<open>(n, n)\<close>; the model takes the pairs.  \<open>search_area_size > window_size\<close> is Python's
  comparison of tuples (lexicographic).  The blocks are used when \<open>max_array_size\<close> is
  given and \<open>num_areas > max_array_size / (window_size[0] * window_size[1])\<close>, a true
  division of Python integers.
\<close>

definition use_blocks :: "int \<times> int \<Rightarrow> int \<Rightarrow> int \<Rightarrow> bool" where
  "use_blocks window_size num_areas max_array_size =
     (real_of_int max_array_size / real_of_int (fst window_size * snd window_size)
        < real_of_int num_areas)"

definition extended_search_area_piv ::
  "real matrix \<Rightarrow> real matrix \<Rightarrow> int \<times> int \<Rightarrow> int \<times> int \<Rightarrow> fl \<Rightarrow> (int \<times> int) option
     \<Rightarrow> string \<Rightarrow> string \<Rightarrow> string option \<Rightarrow> nat \<Rightarrow> bool \<Rightarrow> int option
     \<Rightarrow> event list \<times> (error + piv_result)" where
  "extended_search_area_piv frame_a frame_b window_size overlap dt search_area_size_opt
       correlation_method subpixel_method sig2noise_method width normalized_correlation
       max_array_size =
     (let search_area_size = (case search_area_size_opt of None \<Rightarrow> window_size | Some s \<Rightarrow> s)
      in
      if fst window_size \<le> fst overlap \<or> snd window_size \<le> snd overlap
      then ([], Inl (ValueError ''Overlap has to be smaller than the window_size''))
      else if fst search_area_size < fst window_size \<or> snd search_area_size < snd window_size
      then ([], Inl (ValueError ''Search size cannot be smaller than the window_size''))
      else if fst (image_shape frame_a) < snd window_size
              \<or> snd (image_shape frame_a) < fst window_size
      then ([], Inl (ValueError ''window size cannot be larger than the image''))
      else
        (let n_rows = fst (get_field_shape (image_shape frame_a) search_area_size overlap);
             n_cols = snd (get_field_shape (image_shape frame_a) search_area_size overlap)
         in
         if fst window_size < fst search_area_size
            \<or> (fst window_size = fst search_area_size
                \<and> snd window_size < snd search_area_size)
         then ([], Inl (NotImplementedError ''search_area_size > window_size:''))
         else
           (case (case max_array_size of
                    None \<Rightarrow>
                      whole_batch_piv frame_a frame_b search_area_size overlap
                        correlation_method normalized_correlation subpixel_method
                        n_rows n_cols
                  | Some m \<Rightarrow>
                      if fst window_size * snd window_size = 0
                      then ([], Inl ZeroDivisionError)
                      else if use_blocks window_size (n_rows * n_cols) m
                      then block_scheduled_piv frame_a frame_b search_area_size overlap
                             correlation_method normalized_correlation subpixel_method
                             n_rows n_cols m
                      else whole_batch_piv frame_a frame_b search_area_size overlap
                             correlation_method normalized_correlation subpixel_method
                             n_rows n_cols) of
              (tr, Inl e) \<Rightarrow> (tr, Inl e)
            | (tr, Inr (u, v)) \<Rightarrow>
                (tr, finish_piv sig2noise_method n_rows n_cols dt u v))))"

section \<open>Concrete inputs\<close>

text \<open>Correlation maps and windows at which the code is evaluated below.\<close>

definition centre_peak :: "fl matrix" where
  "centre_peak = [[Fin 1, Fin 1, Fin 1], [Fin 1, Fin 5, Fin 2], [Fin 1, Fin 1, Fin 1]]"

definition corner_peak :: "fl matrix" where
  "corner_peak = [[Fin 9, Fin 0, Fin 0], [Fin 0, Fin 0, Fin 0], [Fin 0, Fin 0, Fin 0]]"

definition edge_peak :: "fl matrix" where
  "edge_peak = [[Fin 0, Fin 9, Fin 0], [Fin 0, Fin 0, Fin 0], [Fin 0, Fin 0, Fin 0]]"


text \<open>A centre peak whose upper neighbour becomes exactly 0 when \<open>eps\<close> is added.\<close>

definition zero_neighbour :: "fl matrix" where
  "zero_neighbour = [[Fin (1 / 2), Fin (- (1 / 10 ^ 7)), Fin (1 / 2)],
                     [Fin (1 / 2), Fin 1, Fin (1 / 2)],
                     [Fin (1 / 2), Fin (1 / 2), Fin (1 / 2)]]"

text \<open>Interior first peaks below \<open>1e-3\<close>.\<close>

definition weak_peak :: "fl matrix" where
  "weak_peak = [[Fin 0, Fin 0, Fin 0], [Fin 0, Fin (9 / 10 ^ 4), Fin 0], [Fin 0, Fin 0, Fin 0]]"

definition weak_peak5 :: "fl matrix" where
  "weak_peak5 = [[Fin 0, Fin 0, Fin (4 / 10 ^ 4), Fin 0, Fin 0],
                 [Fin 0, Fin 0, Fin 0, Fin 0, Fin 0],
                 [Fin 0, Fin 0, Fin (8 / 10 ^ 4), Fin 0, Fin 0],
                 [Fin 0, Fin 0, Fin 0, Fin 0, Fin 0],
                 [Fin 0, Fin 0, Fin 0, Fin 0, Fin 0]]"

text \<open>Two windows with different maxima after normalization (3 and 1).\<close>

definition two_windows :: "real batch" where
  "two_windows = [[[10, 0, 0, 0, 0], [0, 0, 0, 0, 0]], [[0, 2, 0, 2, 0], [2, 0, 2, 0, 2]]]"

definition odd_window :: "real matrix" where
  "odd_window = [[1, 2, 3], [4, 5, 6], [7, 8, 9]]"

text \<open>
  Two frames of \<open>4 \<times> 8\<close> pixels, that is two windows of \<open>4 \<times> 4\<close>.  Each window of the
  first frame has one bright pixel in its corner; in the second frame the left window is
  the same and the bright pixel of the right window is two rows lower, so that the
  correlation peak of the left pair is at the centre of its map and the peak of the
  right pair is in the first row.  \<open>d00\<close> and \<open>d20\<close> are the windows, \<open>centre_map\<close> and
  \<open>edge_map\<close> the two correlation maps.
\<close>

definition d00 :: "real matrix" where
  "d00 = [[1, 0, 0, 0], [0, 0, 0, 0], [0, 0, 0, 0], [0, 0, 0, 0]]"
definition d20 :: "real matrix" where
  "d20 = [[0, 0, 0, 0], [0, 0, 0, 0], [1, 0, 0, 0], [0, 0, 0, 0]]"

definition delta_frame_a :: "real matrix" where
  "delta_frame_a = [[1, 0, 0, 0, 1, 0, 0, 0],
              [0, 0, 0, 0, 0, 0, 0, 0],
              [0, 0, 0, 0, 0, 0, 0, 0],
              [0, 0, 0, 0, 0, 0, 0, 0]]"

definition delta_frame_b :: "real matrix" where
  "delta_frame_b = [[1, 0, 0, 0, 0, 0, 0, 0],
              [0, 0, 0, 0, 0, 0, 0, 0],
              [0, 0, 0, 0, 1, 0, 0, 0],
              [0, 0, 0, 0, 0, 0, 0, 0]]"

definition centre_map :: "fl matrix" where
  "centre_map = [[Fin 0, Fin 0, Fin 0, Fin 0], [Fin 0, Fin 0, Fin 0, Fin 0],
                 [Fin 0, Fin 0, Fin 1, Fin 0], [Fin 0, Fin 0, Fin 0, Fin 0]]"

definition edge_map :: "fl matrix" where
  "edge_map = [[Fin 0, Fin 0, Fin 1, Fin 0], [Fin 0, Fin 0, Fin 0, Fin 0],
               [Fin 0, Fin 0, Fin 0, Fin 0], [Fin 0, Fin 0, Fin 0, Fin 0]]"

section \<open>Properties\<close>

lemmas peak_defs =
  find_first_peak_def np_argmax_def np_max_def np_nanmax_def unravel_index_def ncols_def
  np_maximum_def np_fmax_def shape1_def shape2_def find_all_first_peaks_def Let_def
  on_border_def feq_def

lemmas subpixel_defs =
  known_subpixel_method_def add_eps_def eps_default_def np_where_def assign_at_def
  stencil_def index2_def py_index_def subpixel_position_def parabolic_shift_def
  gaussian_inv_def minus_fl_def centroid_fit_def gaussian_den_def gaussian_nom_def
  assemble_def invalid_windows_def raw_displacement_def return_displacements_def

lemmas snr_defs =
  np_mean_def np_nanmean_def divide_where_pos_def nan_to_zero_def peak2mean_max1_def
  first_peak_flag_def peak2peak_window_def find_second_peak_def find_all_second_peaks_def
  view_masked_def mask_region_def find_first_peak_masked_def find_all_first_peaks_masked_def
  ma_filled_def all_masked_def nan_to_ninf_def

text \<open>
  C1.  The claim: a window whose first peak is not within one pixel of a border gets the
  displacement \<open>peak + shift - floor(size / 2)\<close>, and the windows within one pixel of a
  border get NaN and are counted.  The code at a batch of two \<open>3 \<times> 3\<close> maps, the first
  with its peak in a corner and the second with its peak in the centre: the corner window
  is listed twice in \<open>invalid\<close>, \<open>len(invalid)\<close> equals the number of windows, and the
  early return gives the all-NaN array of shape \<open>(2, 2)\<close>: NaN for the valid second
  window, and no count.  With the first peak on an edge instead of a corner the same
  second window gets its displacement \<open>(1/14, 0)\<close> and the count is 1.
\<close>

theorem assembler_early_return_on_corner_peak:
  "snd (vectorized_correlation_to_displacements [corner_peak, centre_peak] None None
          ''parabolic'' eps_default)
     = Inr (NanBlock [[NaN, NaN], [NaN, NaN]])
   \<and> snd (vectorized_correlation_to_displacements [edge_peak, centre_peak] None None
            ''parabolic'' eps_default)
     = Inr (Flat [NaN, Fin (1 / 14)] [NaN, Fin 0] 1)"
  by (simp add: vectorized_correlation_to_displacements_def corner_peak_def edge_peak_def
        centre_peak_def peak_defs subpixel_defs)

text \<open>
  C2.  For a valid configuration (on both axes the window is larger than the overlap, the
  overlap is not negative and the window fits the image), the field shape computed by
  \<open>get_field_shape\<close> is, on each axis, the floor of the real quotient
  \<open>(image - window) / (window - overlap)\<close>, plus one.
\<close>

theorem get_field_shape_floor_formula:
  assumes "fst overlap < fst window_size" and "0 \<le> fst overlap"
    and "fst window_size \<le> fst image_size"
    and "snd overlap < snd window_size" and "0 \<le> snd overlap"
    and "snd window_size \<le> snd image_size"
  shows "get_field_shape image_size window_size overlap =
     (\<lfloor>real_of_int (fst image_size - fst window_size)
         / real_of_int (fst window_size - fst overlap)\<rfloor> + 1,
      \<lfloor>real_of_int (snd image_size - snd window_size)
         / real_of_int (snd window_size - snd overlap)\<rfloor> + 1)"
  unfolding get_field_shape_def by (simp only: floor_divide_of_int_eq)

theorem get_field_shape_floor_formula_witness:
  "get_field_shape (128, 100) (32, 24) (16, 5) = (7, 5) \<and>
   (\<lfloor>real_of_int (128 - 32) / real_of_int (32 - 16)\<rfloor> + 1,
    \<lfloor>real_of_int (100 - 24) / real_of_int (24 - 5)\<rfloor> + 1) = ((7::int), (5::int))"
proof -
  have "get_field_shape (128, 100) (32, 24) (16, 5) =
     (\<lfloor>real_of_int (fst (128::int, 100::int) - fst (32::int, 24::int))
         / real_of_int (fst (32::int, 24::int) - fst (16::int, 5::int))\<rfloor> + 1,
      \<lfloor>real_of_int (snd (128::int, 100::int) - snd (32::int, 24::int))
         / real_of_int (snd (32::int, 24::int) - snd (16::int, 5::int))\<rfloor> + 1)"
    by (rule get_field_shape_floor_formula) simp_all
  moreover have "get_field_shape (128, 100) (32, 24) (16, 5) = (7, 5)"
    by (simp add: get_field_shape_def)
  ultimately show ?thesis by simp
qed

text \<open>
  C5.  The claim: with the gaussian method, a stencil sample \<open>\<le> 0\<close> makes the estimator
  use the parabolic fit, by the same test in the single-window and the batched path, and
  no NaN comes from the log of a non-positive sample.  The code at a \<open>3 \<times> 3\<close> map whose
  peak is in the centre and whose upper neighbour is \<open>-1e-7\<close>, so exactly 0 once \<open>eps\<close> is
  added: the single-window function tests \<open>< 0\<close>, keeps the gaussian fit, and returns NaN
  for the row (from \<open>log 0\<close>); the batched function tests \<open>\<le> 0\<close> and returns the
  parabolic fit.
\<close>

theorem gaussian_fallback_misses_zero_sample:
  "snd (find_subpixel_peak_position zero_neighbour ''gaussian'') = Inr (NaN, Fin 1)
   \<and> snd (vectorized_correlation_to_displacements [zero_neighbour] None None ''gaussian''
            eps_default)
     = Inr (Flat [Fin 0] [Fin (5000001 / 30000002)] 0)"
  by (simp add: find_subpixel_peak_position_def vectorized_correlation_to_displacements_def
        zero_neighbour_def peak_defs subpixel_defs)

text \<open>
  C6.  The claim: the circular correlation of a batch has, per window, the shape of the
  input window, for even and odd window dimensions.  The code at one pair of \<open>3 \<times> 3\<close>
  windows: the half spectrum has 2 columns and \<open>irfft2\<close>, called without an output shape,
  returns \<open>2 * (2 - 1) = 2\<close> columns, so the correlation map is \<open>3 \<times> 2\<close>.
\<close>

theorem circular_correlation_of_odd_window_loses_a_column:
  "(case fft_correlate_images [odd_window] [odd_window] ''circular'' False of
      Inr corr \<Rightarrow> map (map length) corr
    | Inl e \<Rightarrow> [])
   = [[2, 2, 2]]"
  by (simp add: fft_correlate_images_def circular_correlation_def rfft2_def irfft2_def
        odd_window_def ncols_def Let_def broadcast_def spectrum_product_def fftshift2_def roll_def map_matrix_def)

text \<open>
  C7.  The claim: both signal-to-noise implementations return exactly 0 for a window whose
  first peak is below \<open>1e-3\<close> or on a border.  The code at a batch of two \<open>3 \<times> 3\<close> maps,
  one with an interior peak of \<open>9e-4\<close> and one with its peak in a corner (\<open>peak2mean\<close>),
  and at a \<open>5 \<times> 5\<close> map with an interior peak of \<open>8e-4\<close> and a second peak of \<open>4e-4\<close>
  (\<open>peak2peak\<close>, \<open>width = 1\<close>): the loop version returns 0, the vectorized version returns
  the ratios 9, 9 and 2, because its \<open>flag\<close> is never applied.
\<close>

theorem vectorized_sig2noise_ignores_flag:
  "snd (vectorized_sig2noise_ratio [weak_peak, corner_peak] (Some ''peak2mean'') 2)
     = Inr [Fin 9, Fin 9]
   \<and> snd (sig2noise_ratio [weak_peak, corner_peak] (Some ''peak2mean'') 2)
     = Inr [Fin 0, Fin 0]
   \<and> snd (vectorized_sig2noise_ratio [weak_peak5] (Some ''peak2peak'') 1) = Inr [Fin 2]
   \<and> snd (sig2noise_ratio [weak_peak5] (Some ''peak2peak'') 1) = Inr [Fin 0]"
  by (simp add: vectorized_sig2noise_ratio_def sig2noise_ratio_def weak_peak_def
        corner_peak_def weak_peak5_def peak_defs snr_defs)

subsection \<open>What the calls leave in the caller's correlation array\<close>

lemma fst_mask_region: "fst (mask_region tmp a b c d) = fst tmp"
  by (simp add: mask_region_def)

lemma fst_find_second_peak: "fst (find_second_peak corr i j width) = corr"
  by (auto simp: find_second_peak_def Let_def fst_mask_region view_masked_def
      split: option.splits sum.splits prod.splits)

lemma map_fst_mask_fold:
  "map fst (foldl (\<lambda>t (i, x, y). t[i := mask_region (t ! i) (f x) (g x) (h y) (k y)]) tmp idx)
     = map fst tmp"
proof (induction idx arbitrary: tmp)
  case Nil
  then show ?case by simp
next
  case (Cons p idx)
  obtain i x y where p: "p = (i, x, y)" by (cases p) auto
  have "map fst (tmp[i := mask_region (tmp ! i) (f x) (g x) (h y) (k y)]) = map fst tmp"
  proof (cases "i < length tmp")
    case True
    then show ?thesis
      by (simp add: map_update fst_mask_region list_update_same_conv)
  next
    case False
    then show ?thesis by (simp add: list_update_beyond)
  qed
  then show ?case using Cons.IH p by simp
qed

lemma fst_find_all_second_peaks: "fst (find_all_second_peaks corr width) = corr"
proof -
  have "map fst (map view_masked corr) = corr"
    by (induction corr) (simp_all add: view_masked_def)
  then show ?thesis
    by (auto simp: find_all_second_peaks_def Let_def map_fst_mask_fold split: sum.splits prod.splits)
qed

lemma find_second_peak_frame:
  "find_second_peak corr i j width = (c', r) \<Longrightarrow> c' = corr"
  using fst_find_second_peak [of corr i j width] by simp

lemma fst_peak2peak_window: "fst (peak2peak_window corr width) = corr"
  by (auto simp: peak2peak_window_def dest: find_second_peak_frame
      split: sum.splits prod.splits option.splits)

lemma fst_peak2peak_loop: "fst (peak2peak_loop corr width) = corr"
proof (induction corr)
  case Nil
  then show ?case by simp
next
  case (Cons w rest)
  then show ?case
    using fst_peak2peak_window [of w width]
    by (auto split: sum.splits prod.splits)
qed

lemma fst_sig2noise_ratio: "fst (sig2noise_ratio corr m width) = corr"
  using fst_peak2peak_loop [of corr width]
  by (auto simp: sig2noise_ratio_def split: sum.splits prod.splits)

lemma fst_vectorized_sig2noise_ratio: "fst (vectorized_sig2noise_ratio corr m width) = corr"
  using fst_find_all_second_peaks [of corr width]
  by (auto simp: vectorized_sig2noise_ratio_def Let_def split: sum.splits prod.splits)

lemma fst_find_subpixel_peak_position:
  "fst (find_subpixel_peak_position corr m) =
     (case find_first_peak corr of
        Inl e \<Rightarrow> corr
      | Inr ((i, j), v) \<Rightarrow>
          if known_subpixel_method m \<and> \<not> on_border i j (length corr) (ncols corr)
          then add_eps eps_default corr else corr)"
  by (auto simp: find_subpixel_peak_position_def Let_def split: sum.splits prod.splits)

lemma fst_vectorized_correlation_to_displacements:
  "fst (vectorized_correlation_to_displacements corr nr nc m e) =
     (if known_subpixel_method m then map (add_eps e) corr else corr)"
  by (simp add: vectorized_correlation_to_displacements_def Let_def)


text \<open>
  C10, as the claim states it, fails: the claim says that no operation on a correlation
  batch changes the caller's array.  At a \<open>3 \<times> 3\<close> map with its peak in the centre, the
  array after \<open>find_subpixel_peak_position\<close> differs from the one passed in, and so does
  the batch after \<open>vectorized_correlation_to_displacements\<close>.
\<close>

theorem subpixel_estimation_mutates_correlation:
  "fst (find_subpixel_peak_position centre_peak ''parabolic'') \<noteq> centre_peak
   \<and> fst (vectorized_correlation_to_displacements [centre_peak] None None ''parabolic''
            eps_default) \<noteq> [centre_peak]"
  by (simp add: find_subpixel_peak_position_def vectorized_correlation_to_displacements_def
        centre_peak_def peak_defs subpixel_defs)

text \<open>
  C10, amended.  Second-peak finding (single map and batch) and both signal-to-noise
  evaluations leave the caller's correlation data unchanged: the masked view they write
  to changes its mask only.  (First-peak finding only reads.)  Sub-pixel estimation on
  one map leaves the array unchanged when the method name is rejected, the map is empty
  or the first peak is on a border, and otherwise adds \<open>eps = 1e-7\<close> to every element in
  place.  Displacement conversion adds \<open>eps\<close> to every element in place whenever the
  method name is accepted.
\<close>

theorem correlation_array_after_call:
  "fst (find_second_peak corr i j width) = corr
   \<and> fst (find_all_second_peaks correlation width) = correlation
   \<and> fst (sig2noise_ratio correlation sig2noise_method width) = correlation
   \<and> fst (vectorized_sig2noise_ratio correlation sig2noise_method width) = correlation
   \<and> fst (find_subpixel_peak_position corr subpixel_method) =
        (case find_first_peak corr of
           Inl e \<Rightarrow> corr
         | Inr ((peak1_i, peak1_j), v) \<Rightarrow>
             if known_subpixel_method subpixel_method
                \<and> \<not> on_border peak1_i peak1_j (length corr) (ncols corr)
             then add_eps eps_default corr else corr)
   \<and> fst (vectorized_correlation_to_displacements correlation n_rows n_cols
            subpixel_method eps) =
        (if known_subpixel_method subpixel_method then map (add_eps eps) correlation
         else correlation)"
  by (simp only: fst_find_second_peak fst_find_all_second_peaks fst_sig2noise_ratio
        fst_vectorized_sig2noise_ratio fst_find_subpixel_peak_position
        fst_vectorized_correlation_to_displacements simp_thms)

subsection \<open>Border peaks\<close>

lemma is_nan_add_Fin [simp]: "is_nan (x + Fin e) = is_nan x"
  by (cases x) simp_all

lemma le_add_Fin [simp]: "(x + Fin e \<le> y + Fin e) = (x \<le> y)"
  by (cases x; cases y) simp_all

lemma argmax_from_add_Fin:
  "argmax_from (mp + Fin e) mi i (map (\<lambda>x. x + Fin e) xs) = argmax_from mp mi i xs"
  by (induction xs arbitrary: mp mi i) simp_all

lemma np_argmax_add_Fin: "np_argmax (map (\<lambda>x. x + Fin e) xs) = np_argmax xs"
  by (cases xs) (simp_all add: np_argmax_def argmax_from_add_Fin)

lemma concat_add_eps: "concat (add_eps e w) = map (\<lambda>x. x + e) (concat w)"
  by (simp add: add_eps_def map_concat)

lemma np_argmax_add_eps: "np_argmax (concat (add_eps (Fin e) w)) = np_argmax (concat w)"
  by (simp add: concat_add_eps np_argmax_add_Fin)

lemma ncols_add_eps [simp]: "ncols (add_eps e w) = ncols w"
  by (cases w) (simp_all add: ncols_def add_eps_def)

lemma length_add_eps [simp]: "length (add_eps e w) = length w"
  by (simp add: add_eps_def)

lemma rect_add_eps [simp]: "rect R C (add_eps e w) = rect R C w"
  by (simp add: rect_def add_eps_def list_all_iff)

lemma collect_map_Inr:
  "(\<And>x. x \<in> set xs \<Longrightarrow> f x = Inr (g x)) \<Longrightarrow> collect (map f xs) = Inr (map g xs)"
  by (induction xs) simp_all

lemma collect_Inr_length: "collect rs = Inr xs \<Longrightarrow> length xs = length rs"
  by (induction rs arbitrary: xs) (auto split: sum.splits)


lemma length_assign_at [simp]: "length (assign_at xs idx v) = length xs"
  unfolding assign_at_def by (induction idx arbitrary: xs) simp_all

lemma nth_assign_at:
  "q < length xs \<Longrightarrow> assign_at xs idx v ! q = (if q \<in> set idx then v else xs ! q)"
  unfolding assign_at_def
proof (induction idx arbitrary: xs)
  case Nil
  then show ?case by simp
next
  case (Cons a idx)
  have "foldl (\<lambda>ys k. ys[k := v]) (xs[a := v]) idx ! q
          = (if q \<in> set idx then v else xs[a := v] ! q)"
    using Cons.IH [of "xs[a := v]"] Cons.prems by simp
  then show ?case using Cons.prems by (auto simp: nth_list_update)
qed

lemma in_np_where: "k \<in> set (np_where P xs) \<longleftrightarrow> k < length xs \<and> P (xs ! k)"
  by (auto simp: np_where_def)




lemma concat_chunks: "concat (chunks r c xs) = take (r * c) xs"
proof (induction r arbitrary: xs)
  case 0
  then show ?case by simp
next
  case (Suc r)
  then show ?case by (simp add: take_add)
qed

lemma np_reshape2_concat: "np_reshape2 xs r c = Inr g \<Longrightarrow> concat g = xs"
proof -
  assume a: "np_reshape2 xs r c = Inr g"
  let ?n = "int (length xs)"
  have eq: "int (nat a * nat b) = a * b" if "0 \<le> a" "0 \<le> b" for a b :: int
    using that by (simp add: nat_mult_distrib)
  consider (plain) "0 \<le> r" "0 \<le> c" "r * c = ?n" "g = chunks (nat r) (nat c) xs"
    | (rows) "0 < c" "?n mod c = 0" "g = chunks (nat (?n div c)) (nat c) xs"
    | (cols) "0 < r" "?n mod r = 0" "g = chunks (nat r) (nat (?n div r)) xs"
    using a by (auto simp: np_reshape2_def Let_def split: if_splits)
  then show ?thesis
  proof cases
    case plain
    then have "nat r * nat c = length xs"
      by (metis eq nat_int)
    with plain show ?thesis by (simp add: concat_chunks)
  next
    case rows
    then have "?n div c * c = ?n" by (simp add: mod_0_imp_dvd)
    moreover have "0 \<le> ?n div c" using rows by (simp add: pos_imp_zdiv_nonneg_iff)
    ultimately have "nat (?n div c) * nat c = length xs"
      using rows eq [of "?n div c" c] by (metis less_le nat_int)
    with rows show ?thesis by (simp add: concat_chunks)
  next
    case cols
    then have "r * (?n div r) = ?n" by (simp add: mod_0_imp_dvd)
    moreover have "0 \<le> ?n div r" using cols by (simp add: pos_imp_zdiv_nonneg_iff)
    ultimately have "nat r * nat (?n div r) = length xs"
      using cols eq [of r "?n div r"] by (metis less_le nat_int)
    with cols show ?thesis by (simp add: concat_chunks)
  qed
qed

lemma concat_rect_nonempty: "rect R C w \<Longrightarrow> 0 < R \<Longrightarrow> 0 < C \<Longrightarrow> concat w \<noteq> []"
  by (cases w) (auto simp: rect_def)

lemma ncols_rect: "rect R C w \<Longrightarrow> 0 < R \<Longrightarrow> ncols w = C"
  by (cases w) (auto simp: rect_def ncols_def)

lemma shape_rect:
  "list_all (rect R C) batch \<Longrightarrow> batch \<noteq> [] \<Longrightarrow> 0 < R
     \<Longrightarrow> shape1 batch = R \<and> shape2 batch = C"
  by (cases batch) (auto simp: shape1_def shape2_def ncols_rect rect_def)

lemma np_argmax_nonempty: "xs \<noteq> [] \<Longrightarrow> \<exists>a. np_argmax xs = Inr a"
  by (cases xs) (simp_all add: np_argmax_def)

lemma np_nanmax_nonempty: "xs \<noteq> [] \<Longrightarrow> \<exists>a. np_nanmax xs = Inr a"
  by (cases xs) (simp_all add: np_nanmax_def)

lemma find_all_first_peaks_rect:
  assumes "batch \<noteq> []" "list_all (rect R C) batch" "0 < R" "0 < C"
  shows "\<exists>peaks mx. find_all_first_peaks batch = Inr (peaks, mx)
           \<and> length peaks = length batch
           \<and> (\<forall>k<length batch. \<exists>a. np_argmax (concat (batch ! k)) = Inr a
                  \<and> peaks ! k = (k, a div C, a mod C))"
proof -
  have ne: "concat w \<noteq> []" if "w \<in> set batch" for w
  proof -
    have "rect R C w" using that assms(2) by (simp add: list_all_iff)
    then show ?thesis using assms(3,4) by (rule concat_rect_nonempty)
  qed
  define am where "am = (\<lambda>w. case np_argmax (concat w) of Inr a \<Rightarrow> a | Inl e \<Rightarrow> 0)"
  define nm where "nm = (\<lambda>w. case np_nanmax (concat w) of Inr a \<Rightarrow> a | Inl e \<Rightarrow> NaN)"
  have am: "np_argmax (concat w) = Inr (am w)" if "w \<in> set batch" for w
    using np_argmax_nonempty [OF ne [OF that]] by (auto simp: am_def)
  have nm: "np_nanmax (concat w) = Inr (nm w)" if "w \<in> set batch" for w
    using np_nanmax_nonempty [OF ne [OF that]] by (auto simp: nm_def)
  have c1: "collect (map (\<lambda>w. np_argmax (concat w)) batch) = Inr (map am batch)"
    by (rule collect_map_Inr) (rule am)
  have c2: "collect (map (\<lambda>w. np_nanmax (concat w)) batch) = Inr (map nm batch)"
    by (rule collect_map_Inr) (rule nm)
  have sh: "shape2 batch = C" using shape_rect assms by blast
  let ?peaks = "map (\<lambda>(k, a). (k, fst (unravel_index a C), snd (unravel_index a C)))
                    (enumerate 0 (map am batch))"
  have eq: "find_all_first_peaks batch = Inr (?peaks, map nm batch)"
    using assms(1) by (simp add: find_all_first_peaks_def c1 c2 sh)
  have "\<exists>a. np_argmax (concat (batch ! k)) = Inr a \<and> ?peaks ! k = (k, a div C, a mod C)"
    if "k < length batch" for k
    using that am [of "batch ! k"] by (simp add: nth_enumerate_eq unravel_index_def)
  then show ?thesis using eq by simp
qed

lemma find_first_peak_argmax:
  "find_first_peak w = Inr ((i, j), v)
     \<Longrightarrow> \<exists>a. np_argmax (concat w) = Inr a \<and> i = a div ncols w \<and> j = a mod ncols w"
  by (auto simp: find_first_peak_def unravel_index_def split: sum.splits)



lemma return_displacements_nth:
  "return_displacements vx vy n n_rows n_cols = Inr d
     \<Longrightarrow> window_displacement d k = (vx ! k, vy ! k)"
  by (auto simp: return_displacements_def split: option.splits sum.splits
      dest: np_reshape2_concat)




lemma list_all_rect_add_eps:
  "list_all (rect R C) (map (add_eps e) batch) = list_all (rect R C) batch"
  by (simp add: list_all_iff)

lemma assembler_peaks:
  assumes rect: "list_all (rect R C) batch" and pos: "0 < R" "0 < C"
    and k: "k < length batch"
    and pk: "find_first_peak (batch ! k) = Inr ((i, j), v)"
  shows "\<exists>peaks mx. find_all_first_peaks (map (add_eps (Fin e)) batch) = Inr (peaks, mx)
           \<and> length peaks = length batch \<and> peaks ! k = (k, i, j)"
proof -
  let ?b = "map (add_eps (Fin e)) batch"
  have ne: "?b \<noteq> []" using k by auto
  have r': "list_all (rect R C) ?b" using rect by (simp add: list_all_rect_add_eps)
  obtain peaks mx where
    f: "find_all_first_peaks ?b = Inr (peaks, mx)" and l: "length peaks = length ?b"
    and a: "\<forall>q<length ?b. \<exists>a. np_argmax (concat (?b ! q)) = Inr a
                \<and> peaks ! q = (q, a div C, a mod C)"
    using find_all_first_peaks_rect [OF ne r' pos] by blast
  obtain a where a1: "np_argmax (concat (?b ! k)) = Inr a"
    and a2: "peaks ! k = (k, a div C, a mod C)"
    using a k by auto
  have "np_argmax (concat (batch ! k)) = Inr a"
    using a1 k by (simp add: np_argmax_add_eps)
  moreover have "ncols (batch ! k) = C"
  proof -
    have "rect R C (batch ! k)" using rect k by (simp add: list_all_length)
    then show ?thesis using pos(1) by (rule ncols_rect)
  qed
  ultimately have "i = a div C" "j = a mod C"
    using find_first_peak_argmax [OF pk] by auto
  then show ?thesis using f l a2 by simp
qed








subsection \<open>The normalizer works window by window\<close>

lemma concat_map_matrix: "concat (map_matrix f w) = map f (concat w)"
  by (simp add: map_matrix_def map_concat)

lemma sum_list_shift:
  "sum_list (map (\<lambda>x. x - c) xs) = sum_list xs - real (length xs) * (c::real)"
  by (induction xs) (simp_all add: algebra_simps)

lemma mean_real_shift:
  "xs \<noteq> [] \<Longrightarrow> mean_real (map (\<lambda>x. x - mean_real xs) xs) = 0"
  by (simp add: mean_real_def sum_list_shift)

lemma std_real_shift:
  "xs \<noteq> [] \<Longrightarrow> std_real (map (\<lambda>x. x - mean_real xs) xs) = std_real xs"
  by (simp add: std_real_def mean_real_shift o_def)

lemma sum_list_less:
  "xs \<noteq> [] \<Longrightarrow> (\<And>x. x \<in> set xs \<Longrightarrow> x < (c::real)) \<Longrightarrow> sum_list xs < real (length xs) * c"
proof (induction xs)
  case Nil
  then show ?case by simp
next
  case (Cons a xs)
  show ?case
  proof (cases "xs = []")
    case True
    then show ?thesis using Cons.prems by simp
  next
    case False
    then have "sum_list xs < real (length xs) * c" using Cons by simp
    moreover have "a < c" using Cons.prems by simp
    ultimately show ?thesis by (simp add: algebra_simps)
  qed
qed

lemma mean_real_le_some:
  assumes "xs \<noteq> []" shows "\<exists>x\<in>set xs. mean_real xs \<le> x"
proof (rule ccontr)
  assume "\<not> (\<exists>x\<in>set xs. mean_real xs \<le> x)"
  then have "\<And>x. x \<in> set xs \<Longrightarrow> x < mean_real xs" by auto
  then have "sum_list xs < real (length xs) * mean_real xs"
    using assms by (rule sum_list_less [rotated])
  then show False using assms by (simp add: mean_real_def)
qed

lemma std_real_nonneg: "0 \<le> std_real xs"
proof -
  have "0 \<le> sum_list (map (\<lambda>x. \<bar>x - c\<bar> ^ 2) xs)" for c :: real
    by (rule sum_list_nonneg) auto
  then show ?thesis by (simp add: std_real_def mean_real_def)
qed

lemma standardize_window_eq:
  assumes "concat w \<noteq> []"
  shows "standardize_window w =
           map_matrix (\<lambda>x. if std_real (concat w) \<noteq> 0
                           then (x - mean_real (concat w)) / std_real (concat w) else 0) w"
proof -
  let ?m = "mean_real (concat w)"
  have "std_real (concat (map_matrix (\<lambda>x. x - ?m) w)) = std_real (concat w)"
    using std_real_shift [OF assms] by (simp add: concat_map_matrix)
  then show ?thesis
    by (simp add: standardize_window_def Let_def) (simp add: map_matrix_def)
qed

lemma standardize_has_nonneg:
  assumes "concat w \<noteq> []"
  shows "\<exists>x\<in>set (concat (standardize_window w)). 0 \<le> x"
proof -
  obtain x where x: "x \<in> set (concat w)" "mean_real (concat w) \<le> x"
    using mean_real_le_some [OF assms] by blast
  let ?f = "\<lambda>x. if std_real (concat w) \<noteq> 0
                  then (x - mean_real (concat w)) / std_real (concat w) else 0"
  have "?f x \<in> set (concat (standardize_window w))"
    using x(1) by (simp add: standardize_window_eq [OF assms] concat_map_matrix)
  moreover have "0 \<le> ?f x"
    using x(2) std_real_nonneg [of "concat w"] by simp
  ultimately show ?thesis by blast
qed

lemma clip_to_upper_bound:
  assumes "finite S" "x \<in> S" "\<exists>y\<in>S. (0::real) \<le> y"
  shows "np_clip x 0 (Max S) = max x 0"
proof -
  have "x \<le> Max S" using assms(1,2) by simp
  moreover have "0 \<le> Max S" using assms(1,3) by (meson Max_ge order_trans)
  ultimately show ?thesis by (simp add: np_clip_def)
qed

lemma map_matrix_cong:
  "(\<And>x. x \<in> set (concat w) \<Longrightarrow> f x = g x) \<Longrightarrow> map_matrix f w = map_matrix g w"
  by (auto simp: map_matrix_def)

text \<open>
  C9.  On a batch of \<open>R \<times> C\<close> windows (with at least one element each), the normalizer
  returns, and its output for window \<open>i\<close> is the per-window normalization of window \<open>i\<close>
  alone: mean subtracted, divided by the window's standard deviation where that is not
  zero and 0 where it is, clipped to \<open>[0, the window's maximum]\<close>.  The code clips to the
  maximum over the whole batch; no window can tell the difference, because every value
  is below its own window's maximum and both maxima are at least 0 (a window's
  mean-free values cannot all be negative).  Exact arithmetic; the rounding of
  \<open>float32\<close> is not modelled.
\<close>

theorem normalize_intensity_per_window:
  assumes rect: "list_all (rect R C) window" and pos: "0 < R" "0 < C"
    and i: "i < length window"
  shows "\<exists>out. normalize_intensity window = Inr out \<and> length out = length window
           \<and> out ! i = spec_normalize_window (window ! i)"
proof -
  define W where "W = map standardize_window window"
  define S where "S = set (concat (concat W))"
  let ?w = "window ! i"
  let ?z = "standardize_window ?w"
  have "rect R C ?w" using rect i by (simp add: list_all_length)
  then have ne: "concat ?w \<noteq> []" using pos by (cases ?w) (auto simp: rect_def)
  have zin: "?z \<in> set W" using i by (simp add: W_def)
  have sub: "set (concat ?z) \<subseteq> S" using zin by (auto simp: S_def)
  obtain y where y: "y \<in> set (concat ?z)" "0 \<le> y"
    using standardize_has_nonneg [OF ne] by blast
  have nonneg: "\<exists>y\<in>S. 0 \<le> y" using y sub by blast
  have fin: "finite S" by (simp add: S_def)
  have "y \<in> S" using y(1) sub by blast
  then have all_ne: "concat (concat W) \<noteq> []" unfolding S_def by force
  have out: "normalize_intensity window = Inr (map (map_matrix (\<lambda>x. np_clip x 0 (Max S))) W)"
    using all_ne by (simp add: normalize_intensity_def Let_def W_def [symmetric] S_def)
  have zeq: "?z = map_matrix (\<lambda>x. if std_real (concat ?w) \<noteq> 0
                                  then (x - mean_real (concat ?w)) / std_real (concat ?w)
                                  else 0) ?w"
    by (rule standardize_window_eq [OF ne])
  have "map_matrix (\<lambda>x. np_clip x 0 (Max S)) ?z
          = map_matrix (\<lambda>x. min (max x 0) (Max (set (concat ?z)))) ?z"
  proof (rule map_matrix_cong)
    fix x assume x: "x \<in> set (concat ?z)"
    have "np_clip x 0 (Max S) = max x 0"
      using fin x sub nonneg by (intro clip_to_upper_bound) auto
    moreover have "np_clip x 0 (Max (set (concat ?z))) = max x 0"
      using x y by (intro clip_to_upper_bound) auto
    ultimately show "np_clip x 0 (Max S) = min (max x 0) (Max (set (concat ?z)))"
      by (simp add: np_clip_def)
  qed
  also have "\<dots> = spec_normalize_window ?w"
    unfolding spec_normalize_window_def Let_def zeq [symmetric] ..
  finally have "map (map_matrix (\<lambda>x. np_clip x 0 (Max S))) W ! i = spec_normalize_window ?w"
    using i by (simp add: W_def)
  then show ?thesis using out by (simp add: W_def)
qed

text \<open>C9 at a batch of two \<open>2 \<times> 5\<close> windows.\<close>

theorem normalize_intensity_per_window_witness:
  "normalize_intensity two_windows
     = Inr [[[3, 0, 0, 0, 0], [0, 0, 0, 0, 0]], [[0, 1, 0, 1, 0], [1, 0, 1, 0, 1]]]
   \<and> (\<exists>out. normalize_intensity two_windows = Inr out \<and> length out = 2
          \<and> out ! 0 = spec_normalize_window [[10, 0, 0, 0, 0], [0, 0, 0, 0, 0]]
          \<and> out ! 1 = spec_normalize_window [[0, 2, 0, 2, 0], [2, 0, 2, 0, 2]])"
proof -
  have r: "list_all (rect 2 5) two_windows" by (simp add: two_windows_def rect_def)
  have e: "normalize_intensity two_windows
             = Inr [[[3, 0, 0, 0, 0], [0, 0, 0, 0, 0]], [[0, 1, 0, 1, 0], [1, 0, 1, 0, 1]]]"
    by (simp add: normalize_intensity_def two_windows_def standardize_window_def Let_def
        map_matrix_def mean_real_def std_real_def np_clip_def)
  show ?thesis
    using normalize_intensity_per_window [OF r, of 0] normalize_intensity_per_window [OF r, of 1] e
    by (auto simp: two_windows_def)
qed

subsection \<open>The pipeline at two concrete frames\<close>

lemmas geometry_defs =
  sliding_window_array_def get_rect_coordinates_def rect_coordinate_axes_def
  coordinate_axes_def coordinate_axis_def get_field_shape_def image_shape_def ncols_def
  meshgrid_def trunc_def index2_def py_index_def Let_def

lemma upt4: "[0..<4] = [0, 1, 2, 3]" by (simp add: upt_rec)
lemma upt3: "[0..<3] = [0, 1, 2]" by (simp add: upt_rec)

lemma lessThan4: "{..<4::nat} = {0, 1, 2, 3}" by auto

lemma twiddle_mod: "twiddle k n = twiddle (k mod int n) n"
proof (cases "n = 0")
  case True
  then show ?thesis by simp
next
  case False
  have "real_of_int k = real_of_int (k div int n) * real n + real_of_int (k mod int n)"
    by (metis of_int_add of_int_mult of_int_of_nat_eq div_mult_mod_eq)
  then have "2 * pi * real_of_int k / real n
      = 2 * pi * real_of_int (k div int n) + 2 * pi * real_of_int (k mod int n) / real n"
    using False by (simp add: field_simps)
  then have "twiddle k n = cis (2 * pi * real_of_int (k div int n)
                                 + 2 * pi * real_of_int (k mod int n) / real n)"
    by (simp only: twiddle_def)
  then have "twiddle k n = cis (2 * pi * real_of_int (k div int n)) * twiddle (k mod int n) n"
    by (simp only: twiddle_def cis_mult)
  moreover have "cis (2 * pi * real_of_int (k div int n)) = 1"
    by (rule cis_multiple_2pi) simp
  ultimately show ?thesis by simp
qed

lemma twiddle_4_values:
  "twiddle 0 4 = 1" "twiddle 1 4 = \<i>" "twiddle 2 4 = - 1" "twiddle 3 4 = - \<i>"
proof -
  show "twiddle 0 4 = 1" by (simp add: twiddle_def)
  have "2 * pi * 1 / 4 = pi / 2" by simp
  then show "twiddle 1 4 = \<i>" by (simp add: twiddle_def)
  have "2 * pi * 2 / 4 = pi" by simp
  then show "twiddle 2 4 = - 1" by (simp add: twiddle_def)
  have "2 * pi * 3 / 4 = pi + pi / 2" by simp
  then have "cis (2 * pi * 3 / 4) = cis pi * cis (pi / 2)"
    by (simp only: cis_mult)
  then show "twiddle 3 4 = - \<i>" by (simp add: twiddle_def)
qed

lemma twiddle_4: "twiddle k 4 = (if k mod 4 = 0 then 1 else if k mod 4 = 1 then \<i>
     else if k mod 4 = 2 then - 1 else - \<i>)"
proof -
  have "k mod 4 = 0 \<or> k mod 4 = 1 \<or> k mod 4 = 2 \<or> k mod 4 = 3" by presburger
  then show ?thesis
    using twiddle_mod [of k 4] twiddle_4_values by auto
qed

lemma twiddle_4_Suc:
  "twiddle k (Suc (Suc (Suc (Suc 0)))) = (if k mod 4 = 0 then 1 else if k mod 4 = 1 then \<i>
     else if k mod 4 = 2 then - 1 else - \<i>)"
  using twiddle_4 [of k] by (simp add: eval_nat_numeral)

lemma rfft2_d00: "rfft2 d00 = Inr [[1, 1, 1], [1, 1, 1], [1, 1, 1], [1, 1, 1]]"
  by (simp add: rfft2_def d00_def ncols_def Let_def upt4 upt3 lessThan4 twiddle_4 twiddle_4_Suc)

lemma rfft2_d20: "rfft2 d20 = Inr [[1, 1, 1], [-1, -1, -1], [1, 1, 1], [-1, -1, -1]]"
  by (simp add: rfft2_def d20_def ncols_def Let_def upt4 upt3 lessThan4 twiddle_4 twiddle_4_Suc)

lemma corr_d00: "circular_correlation d00 d00
   = Inr [[Fin 0, Fin 0, Fin 0, Fin 0], [Fin 0, Fin 0, Fin 0, Fin 0], [Fin 0, Fin 0, Fin 1, Fin 0], [Fin 0, Fin 0, Fin 0, Fin 0]]"
  by (simp add: circular_correlation_def rfft2_d00 broadcast_def spectrum_product_def irfft2_def ncols_def Let_def upt4 lessThan4
      fftshift2_def roll_def map_matrix_def twiddle_4 twiddle_4_Suc)

lemma corr_d20: "circular_correlation d00 d20
   = Inr [[Fin 0, Fin 0, Fin 1, Fin 0], [Fin 0, Fin 0, Fin 0, Fin 0], [Fin 0, Fin 0, Fin 0, Fin 0], [Fin 0, Fin 0, Fin 0, Fin 0]]"
  by (simp add: circular_correlation_def rfft2_d00 rfft2_d20 broadcast_def spectrum_product_def irfft2_def ncols_def Let_def upt4 lessThan4
      fftshift2_def roll_def map_matrix_def twiddle_4 twiddle_4_Suc)

lemma upt2: "[0..<2] = [0, 1]" by (simp add: upt_rec)

lemma slide_a:
  "sliding_window_array delta_frame_a (4, 4) (0, 0) None = Inr [d00, d00]"
  "sliding_window_array delta_frame_a (4, 4) (0, 0) (Some (0, Suc 0)) = Inr [d00]"
  "sliding_window_array delta_frame_a (4, 4) (0, 0) (Some (Suc 0, Suc (Suc 0))) = Inr [d00]"
  by (simp_all add: geometry_defs delta_frame_a_def d00_def upt4 upt2 py_slice_def)

lemma slide_b:
  "sliding_window_array delta_frame_b (4, 4) (0, 0) None = Inr [d00, d20]"
  "sliding_window_array delta_frame_b (4, 4) (0, 0) (Some (0, Suc 0)) = Inr [d00]"
  "sliding_window_array delta_frame_b (4, 4) (0, 0) (Some (Suc 0, Suc (Suc 0))) = Inr [d20]"
  by (simp_all add: geometry_defs delta_frame_b_def d00_def d20_def upt4 upt2 py_slice_def)

lemma corr_maps:
  "circular_correlation d00 d00 = Inr centre_map"
  "circular_correlation d00 d20 = Inr edge_map"
  by (simp_all add: corr_d00 corr_d20 centre_map_def edge_map_def)

lemma fft_frames:
  "fft_correlate_images [d00, d00] [d00, d20] ''circular'' False = Inr [centre_map, edge_map]"
  "fft_correlate_images [d00] [d00] ''circular'' False = Inr [centre_map]"
  "fft_correlate_images [d00] [d20] ''circular'' False = Inr [edge_map]"
  by (simp_all add: fft_correlate_images_def broadcast_def corr_maps)

lemma reshape_1_2: "np_reshape2 [a, b] 1 2 = Inr [[a, b]]"
  by (simp add: np_reshape2_def eval_nat_numeral)

lemma assemble_frames:
  "snd (vectorized_correlation_to_displacements [centre_map, edge_map] (Some 1) (Some 2)
          ''parabolic'' eps_default) = Inr (Grid [[Fin 0, NaN]] [[Fin 0, NaN]] 1)"
  "snd (vectorized_correlation_to_displacements [centre_map] None None
          ''parabolic'' eps_default) = Inr (Flat [Fin 0] [Fin 0] 0)"
  "snd (vectorized_correlation_to_displacements [edge_map] None None
          ''parabolic'' eps_default) = Inr (NanBlock [[NaN, NaN]])"
  by (simp_all add: vectorized_correlation_to_displacements_def centre_map_def edge_map_def
      peak_defs subpixel_defs reshape_1_2)

lemma image_shape_delta_frame_a: "image_shape delta_frame_a = (4, 8)"
  by (simp add: image_shape_def delta_frame_a_def ncols_def)

lemmas pipeline_defs =
  extended_search_area_piv_def whole_batch_piv_def block_scheduled_piv_def use_blocks_def
  block_step_def finish_piv_def image_shape_delta_frame_a get_field_shape_def map_matrix_def
  assign_slice_def Let_def


lemma piv_whole:
  "extended_search_area_piv delta_frame_a delta_frame_b (4, 4) (0, 0) (Fin 1) None ''circular''
     ''parabolic'' None 2 False None
   = ([Extracted, Extracted, Correlated, Converted],
      Inr ([[Fin 0, NaN]], [[Fin 0, NaN]], [[NaN, NaN]]))"
  by (simp add: pipeline_defs slide_a slide_b fft_frames assemble_frames reshape_1_2)

lemma piv_blocks16:
  "extended_search_area_piv delta_frame_a delta_frame_b (4, 4) (0, 0) (Fin 1) None ''circular''
     ''parabolic'' None 2 False (Some 16)
   = ([Extracted, Extracted, Correlated, Converted, Extracted, Extracted, Correlated, Converted],
      Inl (ValueError ''cannot unpack the returned array''))"
  by (simp add: pipeline_defs slide_a slide_b fft_frames assemble_frames reshape_1_2 upt2)

lemma piv_blocks8:
  "extended_search_area_piv delta_frame_a delta_frame_b (4, 4) (0, 0) (Fin 1) None ''circular''
     ''parabolic'' None 2 False (Some 8)
   = ([], Inl OverflowError)"
  by (simp add: pipeline_defs)

lemma piv_blocks32:
  "extended_search_area_piv delta_frame_a delta_frame_b (4, 4) (0, 0) (Fin 1) None ''circular''
     ''parabolic'' None 2 False (Some 32)
   = ([Extracted, Extracted, Correlated, Converted],
      Inr ([[Fin 0, NaN]], [[Fin 0, NaN]], [[NaN, NaN]]))"
  by (simp add: pipeline_defs slide_a slide_b fft_frames assemble_frames reshape_1_2)




text \<open>
  C3.  The claim: with a memory ceiling small enough to trigger the blocks, the pipeline
  computes the same grids as without blocks.  The code at the two frames above, windows
  of \<open>4 \<times> 4\<close> without overlap: without a ceiling (and with a ceiling of 32 elements,
  which does not trigger the blocks) it returns \<open>u = v = [[0, NaN]]\<close>; with a ceiling of
  16 elements, one window per block, the second block holds only the window whose peak
  is on a border, the assembler takes its early return there and the three-way
  unpacking of the result raises; with a ceiling of 8 elements, less than one window,
  \<open>areas_per_block\<close> is 0 and the number of blocks cannot be computed.
\<close>

theorem block_schedule_fails_where_whole_batch_succeeds:
  "extended_search_area_piv delta_frame_a delta_frame_b (4, 4) (0, 0) (Fin 1) None
     ''circular'' ''parabolic'' None 2 False None
   = ([Extracted, Extracted, Correlated, Converted],
      Inr ([[Fin 0, NaN]], [[Fin 0, NaN]], [[NaN, NaN]]))
   \<and> extended_search_area_piv delta_frame_a delta_frame_b (4, 4) (0, 0) (Fin 1) None
       ''circular'' ''parabolic'' None 2 False (Some 32)
     = ([Extracted, Extracted, Correlated, Converted],
        Inr ([[Fin 0, NaN]], [[Fin 0, NaN]], [[NaN, NaN]]))
   \<and> extended_search_area_piv delta_frame_a delta_frame_b (4, 4) (0, 0) (Fin 1) None
       ''circular'' ''parabolic'' None 2 False (Some 16)
     = ([Extracted, Extracted, Correlated, Converted,
         Extracted, Extracted, Correlated, Converted],
        Inl (ValueError ''cannot unpack the returned array''))
   \<and> extended_search_area_piv delta_frame_a delta_frame_b (4, 4) (0, 0) (Fin 1) None
       ''circular'' ''parabolic'' None 2 False (Some 8)
     = ([], Inl OverflowError)"
  by (simp only: piv_whole piv_blocks32 piv_blocks16 piv_blocks8 simp_thms)


subsection \<open>Configuration errors and method names\<close>









lemma snd_finish_case_Inl:
  "snd r = Inl e
     \<Longrightarrow> snd (case r of (tr, Inl e) \<Rightarrow> (tr, Inl e) | (tr, Inr (u, v)) \<Rightarrow> (tr, f u v)) = Inl e"
  for r :: "event list \<times> (error + fl matrix \<times> fl matrix)"
  by (cases r) (auto split: sum.splits)




subsection \<open>Windows with an interior peak\<close>

text \<open>
  Outside the early return, a window whose peak is at least one sample away from every
  edge gets the displacement the sub-pixel formula computes from its nine-point stencil.
\<close>

lemma collect_nth: "collect rs = Inr xs \<Longrightarrow> k < length rs \<Longrightarrow> rs ! k = Inr (xs ! k)"
proof (induction rs arbitrary: xs k)
  case Nil
  then show ?case by simp
next
  case (Cons r rs)
  then show ?case by (cases k) (auto split: sum.splits)
qed

lemma interior_not_invalid:
  assumes "1 \<le> pis ! k" "pis ! k \<le> int R - 2" "1 \<le> pjs ! k" "pjs ! k \<le> int C - 2"
  shows "k \<notin> set (invalid_windows R C pis pjs)"
  using assms by (auto simp: invalid_windows_def in_np_where)

lemma assemble_valid_window:
  assumes rect: "list_all (rect R C) corr" and pos: "0 < R"
    and len: "length peaks = length corr" and k: "k < length corr"
    and pk: "peaks ! k = (k, i, j)"
    and inner: "1 \<le> i" "int i \<le> int R - 2" "1 \<le> j" "int j \<le> int C - 2"
    and res: "assemble corr peaks n_rows n_cols subpixel_method = Inr d"
    and normal: "\<forall>a. d \<noteq> NanBlock a"
  shows "\<exists>st. stencil (corr ! k) (int i) (int j) = Inr st
           \<and> window_displacement d k = raw_displacement subpixel_method R C (st, int i, int j)"
proof -
  have ne: "corr \<noteq> []" using k by auto
  have sh: "shape1 corr = R" "shape2 corr = C"
    using shape_rect [OF rect ne pos] by simp_all
  define pis where "pis = map (\<lambda>p. int (fst (snd p))) peaks"
  define pjs where "pjs = map (\<lambda>p. int (snd (snd p))) peaks"
  define invalid where "invalid = invalid_windows R C pis pjs"
  define ps where "ps = zip (assign_at pis invalid (int (R div 2)))
                            (assign_at pjs invalid (int (C div 2)))"
  have lp: "length pis = length corr" "length pjs = length corr"
    using len by (simp_all add: pis_def pjs_def)
  have pik: "pis ! k = int i" "pjs ! k = int j"
    using k len pk by (simp_all add: pis_def pjs_def)
  have kout: "k \<notin> set invalid"
    unfolding invalid_def by (rule interior_not_invalid) (use pik inner in simp_all)
  have noearly: "length invalid \<noteq> length corr"
  proof
    assume "length invalid = length corr"
    then have "d = NanBlock (replicate (length corr) [NaN, NaN])"
      using res by (simp add: assemble_def Let_def sh pis_def pjs_def invalid_def)
    then show False using normal by simp
  qed
  from noearly res obtain sts where
    st: "collect (map (\<lambda>(w, p_i, p_j). stencil w p_i p_j) (zip corr ps)) = Inr sts"
    and d: "return_displacements
              (assign_at (map fst (map (raw_displacement subpixel_method R C) (zip sts ps)))
                 invalid NaN)
              (assign_at (map snd (map (raw_displacement subpixel_method R C) (zip sts ps)))
                 invalid NaN)
              (length invalid) n_rows n_cols = Inr d"
    by (auto simp: assemble_def Let_def sh pis_def pjs_def invalid_def ps_def
        split: sum.splits)
  have lps: "length ps = length corr" using lp by (simp add: ps_def)
  have lsts: "length sts = length corr"
    using collect_Inr_length [OF st] lps by simp
  have psk: "ps ! k = (int i, int j)"
    using k lp kout pik by (simp add: ps_def nth_assign_at)
  have "map (\<lambda>(w, p_i, p_j). stencil w p_i p_j) (zip corr ps) ! k = Inr (sts ! k)"
    by (rule collect_nth [OF st]) (use k lps in simp)
  then have stk: "stencil (corr ! k) (int i) (int j) = Inr (sts ! k)"
    using k lps psk by simp
  have "window_displacement d k
          = raw_displacement subpixel_method R C (sts ! k, int i, int j)"
    using return_displacements_nth [OF d, of k] kout k lsts lps psk
    by (simp add: nth_assign_at)
  then show ?thesis using stk by blast
qed

lemma assembler_valid_window:
  assumes "known_subpixel_method subpixel_method"
    and rect: "list_all (rect R C) batch" and pos: "0 < R" "0 < C"
    and k: "k < length batch"
    and pk: "find_first_peak (batch ! k) = Inr ((i, j), v)"
    and inner: "1 \<le> i" "int i \<le> int R - 2" "1 \<le> j" "int j \<le> int C - 2"
    and res: "snd (vectorized_correlation_to_displacements batch n_rows n_cols
                     subpixel_method (Fin e)) = Inr d"
    and normal: "\<forall>a. d \<noteq> NanBlock a"
  shows "\<exists>st. stencil (add_eps (Fin e) (batch ! k)) (int i) (int j) = Inr st
           \<and> window_displacement d k = raw_displacement subpixel_method R C (st, int i, int j)"
proof -
  let ?b = "map (add_eps (Fin e)) batch"
  obtain peaks mx where
    f: "find_all_first_peaks ?b = Inr (peaks, mx)" and l: "length peaks = length batch"
    and p: "peaks ! k = (k, i, j)"
    using assembler_peaks [OF rect pos k pk] by blast
  have a: "assemble ?b peaks n_rows n_cols subpixel_method = Inr d"
    using res assms(1) f by (simp add: vectorized_correlation_to_displacements_def Let_def)
  have r: "list_all (rect R C) ?b" using rect by (simp add: list_all_rect_add_eps)
  show ?thesis
    using assemble_valid_window [OF r pos(1) _ _ p inner a normal] l k by simp
qed

subsection \<open>The shape of the circular correlation\<close>

text \<open>
  The forward transform of \<open>C\<close> columns keeps \<open>C div 2 + 1\<close> of them, and the inverse
  transform, called without the output shape, returns \<open>2 * (C div 2)\<close>: the maps have the
  shape of the windows exactly when the number of columns is even.
\<close>

text \<open>A batch of one window is broadcast against a batch of two.\<close>

lemma fft_correlate_images_broadcasts_one_window:
  "fft_correlate_images [d00] [d00, d20] ''circular'' False = Inr [centre_map, edge_map]"
  by (simp add: fft_correlate_images_def broadcast_def corr_maps)

lemma rfft2_shape:
  assumes "rect R C a" "0 < R" "0 < C"
  shows "\<exists>f. rfft2 a = Inr f \<and> rect R (C div 2 + 1) f"
proof -
  have "length a = R" "ncols a = C"
    using assms by (simp_all add: rect_def ncols_rect [OF assms(1,2)])
  then show ?thesis
    using assms(2,3) by (simp add: rfft2_def Let_def rect_def list_all_iff)
qed

lemma irfft2_shape:
  assumes "rect R M P" "0 < R" "2 \<le> M"
  shows "\<exists>c. irfft2 P = Inr c \<and> rect R (2 * (M - 1)) c"
proof -
  have "length P = R" "ncols P = M"
    using assms by (simp_all add: rect_def ncols_rect [OF assms(1,2)])
  then show ?thesis
    using assms(2,3) by (simp add: irfft2_def Let_def rect_def list_all_iff)
qed

lemma length_roll [simp]: "length (roll s xs) = length xs"
  by (simp add: roll_def)

lemma set_roll [simp]: "set (roll s xs) = set xs"
proof (cases "xs = []")
  case True
  then show ?thesis by (simp add: roll_def)
next
  case False
  have "set (drop n xs @ take n xs) = set xs" for n
    by (metis append_take_drop_id set_append sup_commute)
  then show ?thesis using False by (simp add: roll_def del: set_append)
qed

lemma rect_fftshift2: "rect R C m \<Longrightarrow> rect R C (fftshift2 m)"
  by (auto simp: rect_def fftshift2_def list_all_iff)

lemma rect_map_matrix [simp]: "rect R C (map_matrix f m) = rect R C m"
  by (simp add: rect_def map_matrix_def list_all_iff)

lemma spectrum_product_rect:
  assumes "rect R M fa" "rect R M fb"
  shows "spectrum_product fa fb
           = Inr (map (\<lambda>(ra, rb). map (\<lambda>(x, y). cnj x * y) (zip ra rb)) (zip fa fb))"
proof -
  have b: "broadcast fa fb = Inr (zip fa fb)"
    using assms by (simp add: broadcast_def rect_def)
  have "collect (map (\<lambda>(ra, rb). case broadcast ra rb of Inl e \<Rightarrow> Inl e
                         | Inr cols \<Rightarrow> Inr (map (\<lambda>(x, y). cnj x * y) cols)) (zip fa fb))
          = Inr (map (\<lambda>(ra, rb). map (\<lambda>(x, y). cnj x * y) (zip ra rb)) (zip fa fb))"
  proof (rule collect_map_Inr)
    fix q assume q: "q \<in> set (zip fa fb)"
    obtain ra rb where [simp]: "q = (ra, rb)" by (cases q)
    have "ra \<in> set fa" "rb \<in> set fb"
      using q by (auto dest: set_zip_leftD set_zip_rightD)
    then have "length ra = length rb"
      using assms by (auto simp: rect_def list_all_iff)
    then show "(case q of (ra, rb) \<Rightarrow> case broadcast ra rb of Inl e \<Rightarrow> Inl e
                  | Inr cols \<Rightarrow> Inr (map (\<lambda>(x, y). cnj x * y) cols))
               = Inr (case q of (ra, rb) \<Rightarrow> map (\<lambda>(x, y). cnj x * y) (zip ra rb))"
      by (simp add: broadcast_def)
  qed
  then show ?thesis using b by (simp add: spectrum_product_def)
qed

lemma circular_correlation_shape:
  assumes a: "rect R C a" and b: "rect R C b" and pos: "0 < R" "2 \<le> C"
  shows "\<exists>c. circular_correlation a b = Inr c \<and> rect R (2 * (C div 2)) c"
proof -
  obtain fa where fa: "rfft2 a = Inr fa" "rect R (C div 2 + 1) fa"
    using rfft2_shape [OF a pos(1)] pos(2) by auto
  obtain fb where fb: "rfft2 b = Inr fb" "rect R (C div 2 + 1) fb"
    using rfft2_shape [OF b pos(1)] pos(2) by auto
  let ?P = "map (\<lambda>(ra, rb). map (\<lambda>(x, y). cnj x * y) (zip ra rb)) (zip fa fb)"
  have "length ?P = R" using fa(2) fb(2) by (simp add: rect_def)
  moreover have "length row = C div 2 + 1" if "row \<in> set ?P" for row
  proof -
    from that obtain ra rb where "(ra, rb) \<in> set (zip fa fb)"
      and row: "row = map (\<lambda>(x, y). cnj x * y) (zip ra rb)" by auto
    then have "ra \<in> set fa" "rb \<in> set fb" by (auto dest: set_zip_leftD set_zip_rightD)
    then have "length ra = C div 2 + 1" "length rb = C div 2 + 1"
      using fa(2) fb(2) by (auto simp: rect_def list_all_iff)
    then show ?thesis using row by simp
  qed
  ultimately have P: "rect R (C div 2 + 1) ?P" by (simp add: rect_def list_all_iff)
  have "2 \<le> C div 2 + 1" using pos(2) by simp
  from irfft2_shape [OF P pos(1) this]
  obtain c where c: "irfft2 ?P = Inr c" "rect R (2 * (C div 2 + 1 - 1)) c"
    by blast
  have "circular_correlation a b = Inr (fftshift2 (map_matrix Fin c))"
    using fa(1) fb(1) c(1) spectrum_product_rect [OF fa(2) fb(2)]
    by (simp add: circular_correlation_def)
  moreover have "rect R (2 * (C div 2)) (fftshift2 (map_matrix Fin c))"
    using c(2) by (intro rect_fftshift2) simp
  ultimately show ?thesis by blast
qed

lemma fft_correlate_images_shape:
  assumes len: "length image_a = length image_b"
    and a: "list_all (rect R C) image_a" and b: "list_all (rect R C) image_b"
    and pos: "0 < R" "2 \<le> C" and ev: "even C"
  shows "\<exists>corr. fft_correlate_images image_a image_b ''circular'' False = Inr corr
           \<and> length corr = length image_a \<and> list_all (rect R C) corr
           \<and> (\<forall>i<length image_a.
                 circular_correlation (image_a ! i) (image_b ! i) = Inr (corr ! i))"
proof -
  define g where "g = (\<lambda>(a, b). case circular_correlation a b of Inr c \<Rightarrow> c | Inl e \<Rightarrow> [])"
  have C2: "2 * (C div 2) = C" using ev by simp
  have one: "circular_correlation x y = Inr (g (x, y)) \<and> rect R C (g (x, y))"
    if "(x, y) \<in> set (zip image_a image_b)" for x y
  proof -
    have "rect R C x" "rect R C y"
      using that a b by (auto simp: list_all_iff dest: set_zip_leftD set_zip_rightD)
    then obtain c where "circular_correlation x y = Inr c" "rect R C c"
      using circular_correlation_shape [of R C x y] pos C2 by auto
    then show ?thesis by (simp add: g_def)
  qed
  have "collect (map (\<lambda>(a, b). circular_correlation a b) (zip image_a image_b))
          = Inr (map g (zip image_a image_b))"
    by (rule collect_map_Inr) (use one in auto)
  then have r: "fft_correlate_images image_a image_b ''circular'' False
                  = Inr (map g (zip image_a image_b))"
    using len by (simp add: fft_correlate_images_def broadcast_def)
  have "list_all (rect R C) (map g (zip image_a image_b))"
    using one by (auto simp: list_all_iff)
  moreover have "circular_correlation (image_a ! i) (image_b ! i)
                   = Inr (map g (zip image_a image_b) ! i)"
    if "i < length image_a" for i
    using one [of "image_a ! i" "image_b ! i"] that len
    by (simp add: set_zip) blast
  ultimately show ?thesis using r len by simp
qed

subsection \<open>A fully masked second peak\<close>

text \<open>
  With \<open>width = 2\<close> the region around the centre of a \<open>3 \<times> 3\<close> map is the whole map;
  the vectorized evaluator divides the first peak by the fill value of the masked maximum.
\<close>

lemma vectorized_sig2noise_fully_masked:
  "snd (vectorized_sig2noise_ratio
          [[[Fin 0, Fin 0, Fin 0], [Fin 0, Fin 8, Fin 0], [Fin 0, Fin 0, Fin 0]]]
          (Some ''peak2peak'') 2)
     = Inr [Fin (8 / 10 ^ 20)]"
  by (simp add: vectorized_sig2noise_ratio_def peak_defs snr_defs)

subsection \<open>The loop version of the signal-to-noise evaluator\<close>

text \<open>
  \<open>sig2noise_ratio\<close> gives 0 to every window whose first peak is weak or on the border,
  and never returns NaN.
\<close>

lemma nan_to_zero_zero_divide [simp]: "nan_to_zero (Fin 0 / y) = Fin 0"
  by (cases y) (simp_all add: nan_to_zero_def)

lemma not_nan_nan_to_zero [simp]: "\<not> is_nan (nan_to_zero x)"
  by (cases x) (simp_all add: nan_to_zero_def)

lemma peak2peak_loop_nth:
  "snd (peak2peak_loop corr width) = Inr rs \<Longrightarrow>
     length rs = length corr
     \<and> (\<forall>k<length corr. snd (peak2peak_window (corr ! k) width) = Inr (rs ! k))"
proof (induction corr arbitrary: rs)
  case Nil
  then show ?case by simp
next
  case (Cons c rest)
  obtain c' r where w: "peak2peak_window c width = (c', Inr r)"
    using Cons.prems by (cases "peak2peak_window c width") (auto split: sum.splits prod.splits)
  obtain rest' rs' where l: "peak2peak_loop rest width = (rest', Inr rs')"
    using Cons.prems w by (cases "peak2peak_loop rest width") (auto split: sum.splits)
  have rs: "rs = r # rs'" using Cons.prems w l by simp
  have IH: "length rs' = length rest
     \<and> (\<forall>k<length rest. snd (peak2peak_window (rest ! k) width) = Inr (rs' ! k))"
    using Cons.IH [of rs'] l by simp
  show ?case
  proof (intro conjI allI impI)
    show "length rs = length (c # rest)" using rs IH by simp
  next
    fix k assume "k < length (c # rest)"
    then show "snd (peak2peak_window ((c # rest) ! k) width) = Inr (rs ! k)"
      using rs w IH by (cases k) simp_all
  qed
qed

lemma peak2peak_window_rejected:
  assumes "find_first_peak corr = Inr ((i, j), v)"
    and "v < Fin (1 / 10 ^ 3) \<or> on_border i j (length corr) (ncols corr)"
  shows "snd (peak2peak_window corr width) = Inr (Fin 0)"
  using assms by (auto simp: peak2peak_window_def)

lemma peak2mean_max1_rejected:
  assumes "find_first_peak corr = Inr ((i, j), v)"
    and "v < Fin (1 / 10 ^ 3) \<or> on_border i j (length corr) (ncols corr)"
  shows "peak2mean_max1 corr = Inr (Fin 0)"
  using assms by (auto simp: peak2mean_max1_def)

lemma sig2noise_ratio_rejects_window:
  assumes ok: "snd (sig2noise_ratio correlation sig2noise_method width) = Inr rs"
    and k: "k < length correlation"
    and peak: "find_first_peak (correlation ! k) = Inr ((i, j), v)"
    and rej: "v < Fin (1 / 10 ^ 3)
              \<or> on_border i j (length (correlation ! k)) (ncols (correlation ! k))"
  shows "length rs = length correlation \<and> rs ! k = Fin 0"
proof -
  consider (p2p) "sig2noise_method = Some ''peak2peak''"
    | (p2m) "sig2noise_method = Some ''peak2mean''"
    using ok by (auto simp: sig2noise_ratio_def split: if_splits)
  then show ?thesis
  proof cases
    case p2p
    obtain c' raw where l: "peak2peak_loop correlation width = (c', Inr raw)"
      and rs: "rs = map nan_to_zero raw"
      using ok p2p
      by (cases "peak2peak_loop correlation width")
         (auto simp: sig2noise_ratio_def split: sum.splits)
    have n: "length raw = length correlation"
      and "snd (peak2peak_window (correlation ! k) width) = Inr (raw ! k)"
      using peak2peak_loop_nth [of correlation width raw] l k by simp_all
    then have "raw ! k = Fin 0"
      using peak2peak_window_rejected [OF peak rej, of width] by simp
    then show ?thesis using rs n k by (simp add: nan_to_zero_def)
  next
    case p2m
    obtain ms where c: "collect (map peak2mean_max1 correlation) = Inr ms"
      and rs: "rs = map (\<lambda>(m1, w).
                            nan_to_zero
                              (m1 / (let m2 = \<bar>np_mean (concat w)\<bar>
                                     in if feq m2 (Fin 0) then NaN else m2)))
                         (zip ms correlation)"
      using ok p2m by (auto simp: sig2noise_ratio_def split: sum.splits)
    have n: "length ms = length correlation"
      using collect_Inr_length [OF c] by simp
    have "peak2mean_max1 (correlation ! k) = Inr (ms ! k)"
      using collect_nth [OF c, of k] k by simp
    then have "ms ! k = Fin 0"
      using peak2mean_max1_rejected [OF peak rej] by simp
    then show ?thesis using rs n k by simp
  qed
qed

lemma sig2noise_ratio_never_nan:
  assumes "snd (sig2noise_ratio correlation sig2noise_method width) = Inr rs"
  shows "list_all (\<lambda>r. \<not> is_nan r) rs"
proof -
  consider (p2p) "sig2noise_method = Some ''peak2peak''"
    | (p2m) "sig2noise_method = Some ''peak2mean''"
    using assms by (auto simp: sig2noise_ratio_def split: if_splits)
  then show ?thesis
  proof cases
    case p2p
    then show ?thesis using assms
      by (cases "peak2peak_loop correlation width")
         (auto simp: sig2noise_ratio_def list_all_iff split: sum.splits)
  next
    case p2m
    then show ?thesis using assms
      by (auto simp: sig2noise_ratio_def list_all_iff split: sum.splits)
  qed
qed

end
